theory Spec2Isabelle
  imports Complex_Main
begin

section \<open>JavaScript values as the handlers see them\<close>

text \<open>
  The handlers test many values only for truthiness (\<^verbatim>\<open>if (x)\<close>, \<^verbatim>\<open>!x\<close>,
  \<^verbatim>\<open>a || b\<close>).  The value of an entry of an actor's permission map is one of the
  following; any object or array is truthy.
\<close>

datatype jsval =
    JUndefined
  | JNull
  | JBool bool
  | JNum int
  | JStr string
  | JObj

fun truthy :: "jsval \<Rightarrow> bool" where
  "truthy JUndefined = False"
| "truthy JNull = False"
| "truthy (JBool b) = b"
| "truthy (JNum n) = (n \<noteq> 0)"
| "truthy (JStr s) = (s \<noteq> [])"
| "truthy JObj = True"

text \<open>An optional string property: absent (\<^verbatim>\<open>undefined\<close>) and the empty string are falsy.\<close>

fun falsy_str :: "string option \<Rightarrow> bool" where
  "falsy_str None = True"
| "falsy_str (Some s) = (s = [])"

text \<open>An optional number property: absent and \<^verbatim>\<open>0\<close> are falsy.\<close>

fun falsy_num :: "int option \<Rightarrow> bool" where
  "falsy_num None = True"
| "falsy_num (Some n) = (n = 0)"

text \<open>
  \<^verbatim>\<open>a >= b\<close> on numbers that may be \<^verbatim>\<open>undefined\<close>: \<^verbatim>\<open>undefined\<close> converts to
  \<^verbatim>\<open>NaN\<close> and every comparison with \<^verbatim>\<open>NaN\<close> is false.
\<close>

fun js_ge :: "int option \<Rightarrow> int option \<Rightarrow> bool" where
  "js_ge (Some a) (Some b) = (b \<le> a)"
| "js_ge _ _ = False"

section \<open>Lookup on a plain object\<close>

text \<open>
  \<^verbatim>\<open>obj[name]\<close> on a plain object finds the object's own entries first and then what
  the object inherits.  Every plain object inherits the members of
  \<^verbatim>\<open>Object.prototype\<close>: eleven functions and, under \<^verbatim>\<open>__proto__\<close>, the prototype
  itself.  Each of them is truthy, and none has a member \<^verbatim>\<open>requiredLevel\<close>,
  \<^verbatim>\<open>defaultLevel\<close>, \<^verbatim>\<open>description\<close> or \<^verbatim>\<open>permissions\<close>.
\<close>

definition object_prototype_members :: "string list" where
  "object_prototype_members =
     [''constructor'', ''__defineGetter__'', ''__defineSetter__'', ''hasOwnProperty'',
      ''__lookupGetter__'', ''__lookupSetter__'', ''isPrototypeOf'', ''propertyIsEnumerable'',
      ''toString'', ''valueOf'', ''__proto__'', ''toLocaleString'']"

section \<open>The authenticated actor (\<^verbatim>\<open>req.user\<close>)\<close>

text \<open>
  \<^verbatim>\<open>req.user\<close> is an ad hoc object filled in by the token check; every field may be
  missing.  \<^verbatim>\<open>permissions\<close> maps feature names to override values, \<^verbatim>\<open>roles\<close> is an
  array of role ids; \<^verbatim>\<open>name\<close> and \<^verbatim>\<open>managerId\<close> are read by the route handlers.
  \<^verbatim>\<open>permissions\<close> is a plain object; the map holds its own entries.
\<close>

record user =
  user_id :: "string option"
  user_name :: "string option"
  accessLevel :: "int option"
  department :: "string option"
  managerId :: "string option"
  user_permissions :: "(string \<rightharpoonup> jsval) option"
  user_roles :: "string list option"

record request =
  req_user :: "user option"

section \<open>\<^verbatim>\<open>middleware/checkApprovalAuthority.js\<close>\<close>

subsection \<open>\<^verbatim>\<open>canApprove(requestType, accessLevel, isSameDept)\<close>\<close>

text \<open>The \<^verbatim>\<open>switch\<close> of the level-3 branch, case by case and in the source's order.\<close>

fun manager_switch :: "string \<Rightarrow> bool" where
  "manager_switch requestType =
     (if requestType = ''leave'' then True
      else if requestType = ''training'' then True
      else if requestType = ''equipment'' then True
      else if requestType = ''expense'' then True
      else if requestType = ''document'' then True
      else if requestType = ''travel'' then True
      else if requestType = ''expense-high'' then False
      else if requestType = ''policy-exception'' then False
      else if requestType = ''security-access'' then False
      else if requestType = ''salary-change'' then False
      else False)"

definition canApprove :: "string \<Rightarrow> int \<Rightarrow> bool \<Rightarrow> bool" where
  "canApprove requestType accessLvl isSameDept =
     (if accessLvl \<ge> 5 then True
      else if accessLvl = 4 then
        (if requestType = ''expense-high'' then False else True)
      else if accessLvl = 3 \<and> isSameDept then manager_switch requestType
      else False)"

subsection \<open>\<^verbatim>\<open>checkAuthority(req, employeeDepartment)\<close>\<close>

text \<open>
  The function reads \<^verbatim>\<open>req.user\<close>; without a user, or with a user whose \<^verbatim>\<open>id\<close> is
  falsy, it answers \<^verbatim>\<open>false\<close>.  \<^verbatim>\<open>===\<close> on the two departments compares them as
  they are, a missing department included.  A missing access level fails every
  comparison.
\<close>

definition checkAuthority :: "request \<Rightarrow> string option \<Rightarrow> bool" where
  "checkAuthority req employeeDepartment =
     (case req_user req of
        None \<Rightarrow> False
      | Some u \<Rightarrow>
          if falsy_str (user_id u) then False
          else
            let userAccessLevel = accessLevel u;
                userDepartment = department u;
                isSameDept = (userDepartment = employeeDepartment)
            in if js_ge userAccessLevel (Some 5) then True
               else if userAccessLevel = Some 4 then True
               else if userAccessLevel = Some 3 then isSameDept
               else False)"

section \<open>\<^verbatim>\<open>middleware/authorizeFeature.js\<close>\<close>

subsection \<open>The policy store and the cache\<close>

text \<open>
  A permission item and a role item as the tables hold them.  \<^verbatim>\<open>requiredLevel\<close> and
  the role's \<^verbatim>\<open>permissions\<close> array are attributes of a stored document and may be
  missing.  A permission item may hold further attributes (\<^verbatim>\<open>PK\<close>, \<^verbatim>\<open>SK\<close>,
  \<^verbatim>\<open>updatedAt\<close> are written with it), each a string, a number, a boolean or
  \<^verbatim>\<open>null\<close>.
\<close>

datatype scalar = SStr string | SNum int | SBool bool | SNull

fun scalar_truthy :: "scalar \<Rightarrow> bool" where
  "scalar_truthy (SStr s) = (s \<noteq> [])"
| "scalar_truthy (SNum n) = (n \<noteq> 0)"
| "scalar_truthy (SBool b) = b"
| "scalar_truthy SNull = False"

record permission_item =
  permissionName :: string
  requiredLevel :: "int option"
  perm_description :: "string option"
  other_attributes :: "string \<rightharpoonup> scalar"

text \<open>The attribute of a permission item under a name, as a member of the object.\<close>

definition item_attribute :: "permission_item \<Rightarrow> string \<Rightarrow> scalar option" where
  "item_attribute it name =
     (if name = ''permissionName'' then Some (SStr (permissionName it))
      else if name = ''requiredLevel'' then map_option SNum (requiredLevel it)
      else if name = ''description'' then map_option SStr (perm_description it)
      else other_attributes it name)"

record role_item =
  roleId :: string
  roleName :: "string option"
  role_permissions :: "string list option"

text \<open>
  The module-level \<^verbatim>\<open>permissionsCache\<close>: \<^verbatim>\<open>timestamp\<close> starts as \<^verbatim>\<open>null\<close>, the
  two objects start as \<^verbatim>\<open>{}\<close>.  Each map holds what the refresh assigned under each
  key.  An assignment under the key \<^verbatim>\<open>__proto__\<close> adds no entry: it makes the item the
  prototype of the object; the map keeps that item under the key \<^verbatim>\<open>__proto__\<close>, which
  is also what a lookup of \<^verbatim>\<open>__proto__\<close> then returns.
\<close>

record permissionsCache =
  timestamp :: "int option"
  permissions :: "string \<rightharpoonup> permission_item"
  roles :: "string \<rightharpoonup> role_item"

definition ttl :: int where
  "ttl = 5 * 60 * 1000"

definition initial_cache :: permissionsCache where
  "initial_cache = \<lparr> timestamp = None, permissions = Map.empty, roles = Map.empty \<rparr>"

text \<open>
  What the two table scans of a refresh would return: the items, or the error the
  rejected promise carries.
\<close>

datatype store_error = StoreError string

record policy_store =
  scan_permissions :: "store_error + permission_item list"
  scan_roles :: "store_error + role_item list"

text \<open>
  The surroundings of one call: \<^verbatim>\<open>Date.now()\<close> at the staleness test,
  \<^verbatim>\<open>Date.now()\<close> when a refresh stores its timestamp, and the store.
\<close>

record world =
  now_check :: int
  now_refresh :: int
  store :: policy_store

text \<open>The two \<^verbatim>\<open>forEach\<close> loops of the refresh; a later item overwrites an earlier one.\<close>

fun index_permissions ::
  "permission_item list \<Rightarrow> (string \<rightharpoonup> permission_item) \<Rightarrow> (string \<rightharpoonup> permission_item)" where
  "index_permissions [] m = m"
| "index_permissions (item # items) m = index_permissions items (m(permissionName item \<mapsto> item))"

fun index_roles ::
  "role_item list \<Rightarrow> (string \<rightharpoonup> role_item) \<Rightarrow> (string \<rightharpoonup> role_item)" where
  "index_roles [] m = m"
| "index_roles (role # rest) m = index_roles rest (m(roleId role \<mapsto> role))"

text \<open>
  \<^verbatim>\<open>refreshPermissionsCache()\<close>.  Both scans are awaited before the cache is touched;
  a rejected scan jumps to the \<^verbatim>\<open>catch\<close>, which logs and returns \<^verbatim>\<open>false\<close>.  The
  result is the returned boolean and the cache the module holds afterwards.
\<close>

definition refreshPermissionsCache ::
  "int \<Rightarrow> policy_store \<Rightarrow> permissionsCache \<Rightarrow> bool \<times> permissionsCache" where
  "refreshPermissionsCache now st cache =
     (case scan_permissions st of
        Inl error \<Rightarrow> (False, cache)
      | Inr permissionsResult \<Rightarrow>
          (case scan_roles st of
             Inl error \<Rightarrow> (False, cache)
           | Inr rolesResult \<Rightarrow>
               (True,
                \<lparr> timestamp = Some now,
                  permissions = index_permissions permissionsResult Map.empty,
                  roles = index_roles rolesResult Map.empty \<rparr>)))"

text \<open>
  \<^verbatim>\<open>!permissionsCache.timestamp || (Date.now() - permissionsCache.timestamp) > ttl\<close>
\<close>

fun cache_expired :: "int \<Rightarrow> int option \<Rightarrow> bool" where
  "cache_expired now None = True"
| "cache_expired now (Some t) = (t = 0 \<or> now - t > ttl)"

text \<open>The cache a decision reads: refreshed when expired, whatever the refresh returned.\<close>

definition cache_in_effect :: "world \<Rightarrow> permissionsCache \<Rightarrow> permissionsCache" where
  "cache_in_effect w cache =
     (if cache_expired (now_check w) (timestamp cache)
      then snd (refreshPermissionsCache (now_refresh w) (store w) cache)
      else cache)"

subsection \<open>The built-in table\<close>

definition defaultFeaturePermissions :: "(string \<times> int \<times> string) list" where
  "defaultFeaturePermissions =
    [(''employee.view'', 1, ''View own employee profile''),
     (''employee.view.all'', 3, ''View all employee profiles''),
     (''employee.edit'', 3, ''Edit own team employees''),
     (''employee.edit.all'', 4, ''Edit any employee profile''),
     (''employee.create'', 4, ''Create new employees''),
     (''employee.delete'', 5, ''Delete employee profiles''),
     (''requests.create'', 1, ''Create requests''),
     (''requests.approve'', 3, ''Approve team requests''),
     (''requests.view.all'', 3, ''View all requests''),
     (''requests.manage'', 4, ''Manage all requests''),
     (''documents.upload'', 1, ''Upload own documents''),
     (''documents.view'', 1, ''View own documents''),
     (''documents.view.all'', 4, ''View all documents''),
     (''documents.manage'', 4, ''Manage document system''),
     (''documents.delete'', 4, ''Delete documents''),
     (''policies.view'', 1, ''View company policies''),
     (''policies.create'', 4, ''Create policies''),
     (''policies.update'', 4, ''Update policies''),
     (''policies.delete'', 5, ''Delete policies''),
     (''policies.manage'', 4, ''Manage policies''),
     (''training.enroll'', 1, ''Enroll in trainings''),
     (''training.view'', 1, ''View available trainings''),
     (''training.create'', 3, ''Create trainings''),
     (''training.manage'', 3, ''Manage trainings''),
     (''training.delete'', 4, ''Delete trainings''),
     (''training.report'', 4, ''Access training reports''),
     (''jobs.view'', 1, ''View job postings''),
     (''jobs.apply'', 1, ''Apply to job postings''),
     (''jobs.post'', 4, ''Post new job openings''),
     (''jobs.manage'', 4, ''Manage recruitment''),
     (''assets.assign'', 3, ''Assign assets to employees''),
     (''assets.create'', 3, ''Create new assets''),
     (''assets.manage'', 3, ''Manage company assets''),
     (''assets.delete'', 4, ''Delete assets from system''),
     (''analytics.basic'', 3, ''Access basic analytics''),
     (''analytics.advanced'', 4, ''Access advanced analytics''),
     (''analytics.export'', 4, ''Export analytics data''),
     (''system.settings'', 5, ''Manage system settings''),
     (''system.users'', 5, ''Manage system users''),
     (''system.logs'', 5, ''View system logs''),
     (''system.permissions'', 5, ''Manage system permissions'')]"

text \<open>
  \<^verbatim>\<open>defaultFeaturePermissions[featureName]?.defaultLevel || 5\<close> and
  \<^verbatim>\<open>defaultFeaturePermissions[featureName]?.description || 'Undocumented feature'\<close>:
  a missing entry, a level \<^verbatim>\<open>0\<close> and an empty description all give the fallback.  So
  does a name the table inherits: the member found has neither \<^verbatim>\<open>defaultLevel\<close> nor
  \<^verbatim>\<open>description\<close>.
\<close>

definition default_requiredLevel :: "string \<Rightarrow> int" where
  "default_requiredLevel featureName =
     (case map_of defaultFeaturePermissions featureName of
        None \<Rightarrow> 5
      | Some (lvl, d) \<Rightarrow> if lvl = 0 then 5 else lvl)"

definition default_description :: "string \<Rightarrow> string" where
  "default_description featureName =
     (case map_of defaultFeaturePermissions featureName of
        None \<Rightarrow> ''Undocumented feature''
      | Some (lvl, d) \<Rightarrow> if d = [] then ''Undocumented feature'' else d)"

text \<open>
  \<^verbatim>\<open>permissionsCache.permissions[featureName]\<close>: an item the refresh stored under that
  name; else, when an item was assigned under \<^verbatim>\<open>__proto__\<close>, the attribute of that
  item under the name; else the member of \<^verbatim>\<open>Object.prototype\<close> under the name; else
  \<^verbatim>\<open>undefined\<close>.  A value that is not a stored item is kept by its truthiness.
\<close>

datatype cache_member = NoMember | StoredItem permission_item | ForeignValue bool

definition inherited_builtin :: "string \<Rightarrow> cache_member" where
  "inherited_builtin name =
     (if name \<in> set object_prototype_members then ForeignValue True else NoMember)"

definition cached_permission :: "permissionsCache \<Rightarrow> string \<Rightarrow> cache_member" where
  "cached_permission cache featureName =
     (case permissions cache featureName of
        Some item \<Rightarrow> StoredItem item
      | None \<Rightarrow>
          (case permissions cache ''__proto__'' of
             None \<Rightarrow> inherited_builtin featureName
           | Some proto \<Rightarrow>
               (case item_attribute proto featureName of
                  Some v \<Rightarrow> ForeignValue (scalar_truthy v)
                | None \<Rightarrow> inherited_builtin featureName)))"

text \<open>
  \<^verbatim>\<open>permissionsCache.permissions[featureName] || { permissionName, requiredLevel, description }\<close>:
  whatever truthy value the lookup finds is taken as it is; the object of defaults is
  built when the lookup finds nothing or a falsy value.  \<^verbatim>\<open>permissionInfo\<close> is then
  a permission item, or a truthy value that is none: a function, the prototype, a string,
  a number or \<^verbatim>\<open>true\<close>, whose \<^verbatim>\<open>requiredLevel\<close> is \<^verbatim>\<open>undefined\<close>.
\<close>

datatype permission_info = InfoItem permission_item | InfoForeign

definition default_info :: "string \<Rightarrow> permission_item" where
  "default_info featureName =
     \<lparr> permissionName = featureName,
       requiredLevel = Some (default_requiredLevel featureName),
       perm_description = Some (default_description featureName),
       other_attributes = Map.empty \<rparr>"

definition permissionInfo :: "permissionsCache \<Rightarrow> string \<Rightarrow> permission_info" where
  "permissionInfo cache featureName =
     (case cached_permission cache featureName of
        StoredItem item \<Rightarrow> InfoItem item
      | ForeignValue t \<Rightarrow> if t then InfoForeign else InfoItem (default_info featureName)
      | NoMember \<Rightarrow> InfoItem (default_info featureName))"

fun info_requiredLevel :: "permission_info \<Rightarrow> int option" where
  "info_requiredLevel (InfoItem item) = requiredLevel item"
| "info_requiredLevel InfoForeign = None"

subsection \<open>The three checks\<close>

text \<open>
  \<^verbatim>\<open>user.permissions && user.permissions[featureName]\<close>: an own entry decides by its
  truthiness; without an own entry the lookup finds the member of \<^verbatim>\<open>Object.prototype\<close>
  under that name, if there is one, and that member is truthy.
\<close>

definition has_override :: "user \<Rightarrow> string \<Rightarrow> bool" where
  "has_override u featureName =
     (case user_permissions u of
        None \<Rightarrow> False
      | Some perms \<Rightarrow>
          (case perms featureName of
             Some v \<Rightarrow> truthy v
           | None \<Rightarrow> featureName \<in> set object_prototype_members))"

text \<open>
  \<^verbatim>\<open>role && role.permissions && (role.permissions.includes(featureName) || role.permissions.includes('*'))\<close>
  for \<^verbatim>\<open>role = permissionsCache.roles[roleId]\<close>.  Only a stored role grants: what the
  roles object inherits (a function, the prototype, or a string or the array of a role
  assigned under \<^verbatim>\<open>__proto__\<close>) has no member \<^verbatim>\<open>permissions\<close>.
\<close>

definition role_grants :: "permissionsCache \<Rightarrow> string \<Rightarrow> string \<Rightarrow> bool" where
  "role_grants cache featureName rid =
     (case roles cache rid of
        None \<Rightarrow> False
      | Some role \<Rightarrow>
          (case role_permissions role of
             None \<Rightarrow> False
           | Some ps \<Rightarrow> featureName \<in> set ps \<or> ''*'' \<in> set ps))"

text \<open>
  The \<^verbatim>\<open>for (const roleId of user.roles)\<close> loop: it returns \<^verbatim>\<open>true\<close> at the first
  role that grants, and falls out of the loop when none does.
\<close>

fun roles_loop :: "permissionsCache \<Rightarrow> string \<Rightarrow> string list \<Rightarrow> bool" where
  "roles_loop cache featureName [] = False"
| "roles_loop cache featureName (rid # rest) =
     (if role_grants cache featureName rid then True
      else roles_loop cache featureName rest)"

text \<open>The role ids the loop has looked up when it is left, in the order of the lookups.\<close>

fun roles_examined :: "permissionsCache \<Rightarrow> string \<Rightarrow> string list \<Rightarrow> string list" where
  "roles_examined cache featureName [] = []"
| "roles_examined cache featureName (rid # rest) =
     (if role_grants cache featureName rid then [rid]
      else rid # roles_examined cache featureName rest)"

text \<open>
  \<^verbatim>\<open>user.roles && Array.isArray(user.roles) && user.roles.length > 0\<close>, then the loop.
\<close>

definition roles_check :: "permissionsCache \<Rightarrow> string \<Rightarrow> user \<Rightarrow> bool" where
  "roles_check cache featureName u =
     (case user_roles u of
        None \<Rightarrow> False
      | Some rs \<Rightarrow> if rs = [] then False else roles_loop cache featureName rs)"

subsection \<open>\<^verbatim>\<open>authorizeFeature.canPerform(featureName, user)\<close>\<close>

text \<open>
  The body after the refresh (override, \<^verbatim>\<open>permissionInfo\<close>, roles, access level), on the
  cache it reads.
\<close>

definition canPerform_body :: "permissionsCache \<Rightarrow> string \<Rightarrow> user \<Rightarrow> bool" where
  "canPerform_body cache featureName u =
     (if has_override u featureName then True
      else
        let info = permissionInfo cache featureName
        in if roles_check cache featureName u then True
           else js_ge (accessLevel u) (info_requiredLevel info))"

text \<open>
  \<^verbatim>\<open>if (!user || (!user.accessLevel && !user.permissions && !user.roles)) return false\<close>
  comes first, before the cache is looked at.
\<close>

definition lacks_critical_data :: "user \<Rightarrow> bool" where
  "lacks_critical_data u =
     (falsy_num (accessLevel u) \<and> user_permissions u = None \<and> user_roles u = None)"

definition canPerform ::
  "world \<Rightarrow> permissionsCache \<Rightarrow> string \<Rightarrow> user option \<Rightarrow> bool \<times> permissionsCache" where
  "canPerform w cache featureName usr =
     (case usr of
        None \<Rightarrow> (False, cache)
      | Some u \<Rightarrow>
          if lacks_critical_data u then (False, cache)
          else
            let cache' = cache_in_effect w cache
            in (canPerform_body cache' featureName u, cache'))"

subsection \<open>The middleware \<^verbatim>\<open>authorizeFeature(featureName)\<close>\<close>

datatype outcome = Next | Respond nat string

definition authorizeFeature ::
  "string \<Rightarrow> world \<Rightarrow> permissionsCache \<Rightarrow> request \<Rightarrow> outcome \<times> permissionsCache" where
  "authorizeFeature featureName w cache req =
     (case req_user req of
        None \<Rightarrow> (Respond 401 ''Authentication required'', cache)
      | Some u \<Rightarrow>
          if falsy_str (user_id u) then (Respond 401 ''Authentication required'', cache)
          else
            let cache' = cache_in_effect w cache
            in if has_override u featureName then (Next, cache')
               else
                 let info = permissionInfo cache' featureName
                 in if roles_check cache' featureName u then (Next, cache')
                    else if js_ge (accessLevel u) (info_requiredLevel info) then (Next, cache')
                    else (Respond 403 ''You do not have permission to access this feature'',
                          cache'))"

subsection \<open>The required level in the specification's words\<close>

text \<open>
  The cached custom Permission's \<^verbatim>\<open>requiredLevel\<close> when a cache entry of that name
  exists, else the built-in table's level, else 5.
\<close>

definition requiredLevel_spec :: "permissionsCache \<Rightarrow> string \<Rightarrow> int option" where
  "requiredLevel_spec cache featureName =
     (case permissions cache featureName of
        Some item \<Rightarrow> requiredLevel item
      | None \<Rightarrow>
          (case map_of defaultFeaturePermissions featureName of
             Some (lvl, d) \<Rightarrow> Some lvl
           | None \<Rightarrow> Some 5))"

section \<open>Stored documents, responses, the run-time environment\<close>

text \<open>
  A stored item is a document: attribute names to values.  A table with a single key
  attribute maps the key's value to the item.  Reading an attribute the item does not have
  gives \<^verbatim>\<open>undefined\<close>, here \<open>None\<close>.
\<close>

datatype attr = AStr string | ANum rat | ANull | AList "attr list"

type_synonym item = "string \<rightharpoonup> attr"

type_synonym table = "string \<rightharpoonup> item"

fun attr_truthy :: "attr option \<Rightarrow> bool" where
  "attr_truthy None = False"
| "attr_truthy (Some (AStr s)) = (s \<noteq> [])"
| "attr_truthy (Some (ANum n)) = (n \<noteq> 0)"
| "attr_truthy (Some ANull) = False"
| "attr_truthy (Some (AList xs)) = True"

text \<open>
  A response is its status code and its \<^verbatim>\<open>message\<close>, the source's literal; a message
  built by interpolation is given by its fixed part.
\<close>

datatype response = Response nat string

text \<open>
  What the handlers take from the JavaScript run time: the instant of the call
  (\<^verbatim>\<open>new Date()\<close>, \<^verbatim>\<open>Date.now()\<close>, in milliseconds), the instant a string parses to
  (\<open>None\<close> for an Invalid Date), \<^verbatim>\<open>setHours(0, 0, 0, 0)\<close> in the server's time zone,
  \<^verbatim>\<open>toISOString()\<close>, and the identifiers \<^verbatim>\<open>uuidv4()\<close> returns, by the number of the
  call.
\<close>

record runtime =
  clock :: int
  date_parse :: "string \<Rightarrow> int option"
  local_midnight :: "int \<Rightarrow> int"
  toISOString :: "int \<Rightarrow> string"
  uuidv4 :: "nat \<Rightarrow> string"

text \<open>\<^verbatim>\<open>a <= b\<close> on two dates: false as soon as one is an Invalid Date.\<close>

fun date_le :: "int option \<Rightarrow> int option \<Rightarrow> bool" where
  "date_le (Some a) (Some b) = (a \<le> b)"
| "date_le _ _ = False"

text \<open>
  \<^verbatim>\<open>leaveBalance < leaveDays\<close>: \<^verbatim>\<open>undefined\<close> and \<^verbatim>\<open>NaN\<close> compare false,
  \<^verbatim>\<open>null\<close> counts as 0.  A balance attribute is a number in every item the handlers
  write; a string or a list there is taken as not a number.
\<close>

fun js_lt_num :: "attr option \<Rightarrow> rat option \<Rightarrow> bool" where
  "js_lt_num (Some (ANum b)) (Some d) = (b < d)"
| "js_lt_num (Some ANull) (Some d) = (0 < d)"
| "js_lt_num _ _ = False"

text \<open>The decimal digits of a number inside a template string.\<close>

definition digit_char :: "nat \<Rightarrow> char" where
  "digit_char d =
     (if d = 0 then CHR ''0'' else if d = 1 then CHR ''1'' else if d = 2 then CHR ''2''
      else if d = 3 then CHR ''3'' else if d = 4 then CHR ''4'' else if d = 5 then CHR ''5''
      else if d = 6 then CHR ''6'' else if d = 7 then CHR ''7'' else if d = 8 then CHR ''8''
      else CHR ''9'')"

fun decimal_nat :: "nat \<Rightarrow> string" where
  "decimal_nat n =
     (if n < 10 then [digit_char n]
      else decimal_nat (n div 10) @ [digit_char (n mod 10)])"

declare decimal_nat.simps [simp del]

definition decimal :: "int \<Rightarrow> string" where
  "decimal i = (if i < 0 then CHR ''-'' # decimal_nat (nat (- i)) else decimal_nat (nat i))"

section \<open>\<^verbatim>\<open>routes/leave.js\<close>\<close>

record leave_db =
  LeaveRequests :: table
  LeaveBalances :: table

record leave_body =
  startDate :: "string option"
  endDate :: "string option"
  leaveType :: "string option"
  reason :: "string option"

subsection \<open>Helper functions\<close>

text \<open>
  \<^verbatim>\<open>getDateDiffInDays(startDate, endDate)\<close>: both dates are set to local midnight (the
  two \<^verbatim>\<open>Date\<close> objects of the caller are changed by \<^verbatim>\<open>setHours\<close>), and the
  difference in milliseconds is divided by the milliseconds of a day.  With an Invalid
  Date the result is \<^verbatim>\<open>NaN\<close>.
\<close>

definition getDateDiffInDays :: "runtime \<Rightarrow> int option \<Rightarrow> int option \<Rightarrow> rat option" where
  "getDateDiffInDays rt startDt endDt =
     (case (startDt, endDt) of
        (Some s, Some e) \<Rightarrow>
          let start = local_midnight rt s;
              end' = local_midnight rt e;
              diffInMs = end' - start;
              diffInDays = of_int diffInMs / of_int (1000 * 60 * 60 * 24)
          in Some diffInDays
      | _ \<Rightarrow> None)"

definition defaultBalance :: "string \<Rightarrow> item" where
  "defaultBalance employeeId =
     [''employeeId'' \<mapsto> AStr employeeId, ''annual'' \<mapsto> ANum 20, ''sick'' \<mapsto> ANum 10,
      ''personal'' \<mapsto> ANum 5, ''maternity'' \<mapsto> ANum 90, ''paternity'' \<mapsto> ANum 10]"

datatype js_error = ReferenceError string | TypeError string | RangeError | StoreRejected

text \<open>
  \<^verbatim>\<open>getLeaveBalance(employeeId, leaveType)\<close>, called with a leave type: the balance
  item is created with the default balances when the employee has none.  The store
  rejects a key that is \<^verbatim>\<open>undefined\<close> or the empty string, and the function rethrows.
\<close>

definition getLeaveBalance ::
  "leave_db \<Rightarrow> string option \<Rightarrow> string \<Rightarrow> js_error + (attr option \<times> leave_db)" where
  "getLeaveBalance db employeeId lt =
     (if falsy_str employeeId then Inl StoreRejected
      else
        let key = the employeeId
        in case LeaveBalances db key of
             None \<Rightarrow>
               Inr (defaultBalance key lt,
                    db \<lparr> LeaveBalances := (LeaveBalances db)(key \<mapsto> defaultBalance key) \<rparr>)
           | Some it \<Rightarrow> Inr (it lt, db))"

text \<open>
  \<^verbatim>\<open>updateLeaveBalance(employeeId, leaveType, daysUsed)\<close>: one update,
  \<^verbatim>\<open>SET #leaveType = #leaveType - :daysUsed\<close>, on the balance item of the employee.
  The store rejects the update when the key is empty or when the item or the attribute
  is missing or not a number, and the function rethrows.
\<close>

definition updateLeaveBalance ::
  "leave_db \<Rightarrow> string \<Rightarrow> attr option \<Rightarrow> attr option \<Rightarrow> js_error + leave_db" where
  "updateLeaveBalance db employeeId lt daysUsed =
     (case (lt, daysUsed) of
        (Some (AStr ltName), Some (ANum d)) \<Rightarrow>
          (case (if employeeId = [] then None else LeaveBalances db employeeId) of
             None \<Rightarrow> Inl StoreRejected
           | Some it \<Rightarrow>
               (case it ltName of
                  Some (ANum b) \<Rightarrow>
                    Inr (db \<lparr> LeaveBalances :=
                           (LeaveBalances db)(employeeId \<mapsto> it(ltName \<mapsto> ANum (b - d))) \<rparr>)
                | _ \<Rightarrow> Inl StoreRejected))
      | _ \<Rightarrow> Inl StoreRejected)"

subsection \<open>\<^verbatim>\<open>POST /leave/request\<close>\<close>

text \<open>The object literal \<^verbatim>\<open>leaveRequest\<close> of the handler.\<close>

definition new_leaveRequest ::
  "runtime \<Rightarrow> user \<Rightarrow> string \<Rightarrow> int \<Rightarrow> int \<Rightarrow> string \<Rightarrow> string \<Rightarrow> rat \<Rightarrow> item" where
  "new_leaveRequest rt u employeeId start end' lt rsn leaveDays =
     [''id'' \<mapsto> AStr (''leave_'' @ decimal (clock rt) @ ''_'' @ employeeId),
      ''employeeId'' \<mapsto> AStr employeeId,
      ''startDate'' \<mapsto> AStr (toISOString rt start),
      ''endDate'' \<mapsto> AStr (toISOString rt end'),
      ''leaveType'' \<mapsto> AStr lt,
      ''reason'' \<mapsto> AStr rsn,
      ''leaveDays'' \<mapsto> ANum leaveDays,
      ''status'' \<mapsto> AStr ''pending'',
      ''submittedAt'' \<mapsto> AStr (toISOString rt (clock rt)),
      ''managerId'' \<mapsto> (if falsy_str (managerId u) then ANull else AStr (the (managerId u)))]"

text \<open>
  The handler.  Its \<^verbatim>\<open>catch\<close> answers 500 to whatever is thrown: by the store, which
  rejects a key that is \<^verbatim>\<open>undefined\<close> or empty, or by \<^verbatim>\<open>toISOString()\<close> on an
  Invalid Date.
  \<^verbatim>\<open>start\<close> and \<^verbatim>\<open>end\<close> are at local midnight once \<^verbatim>\<open>getDateDiffInDays\<close> has run.
\<close>

definition post_leave_request ::
  "runtime \<Rightarrow> leave_db \<Rightarrow> user \<Rightarrow> leave_body \<Rightarrow> response \<times> leave_db" where
  "post_leave_request rt db u body =
     (if falsy_str (startDate body) \<or> falsy_str (endDate body)
         \<or> falsy_str (leaveType body) \<or> falsy_str (reason body)
      then (Response 400 ''Some required fields are missing: startDate, endDate, leaveType, reason. Please fill all the required fields.'', db)
      else
        let start = date_parse rt (the (startDate body));
            end' = date_parse rt (the (endDate body));
            today = Some (clock rt)
        in if date_le start today
           then (Response 400 ''Start date cannot be today or in the past. Please select a valid date.'', db)
           else if date_le end' start
           then (Response 400 ''End date must be after start date. Please select a valid date.'', db)
           else
             let leaveDays = getDateDiffInDays rt start end'
             in (case getLeaveBalance db (user_id u) (the (leaveType body)) of
                   Inl e \<Rightarrow> (Response 500 ''Internal server error'', db)
                 | Inr (leaveBalance, db1) \<Rightarrow>
                     if js_lt_num leaveBalance leaveDays
                     then (Response 400 ''Insufficient leave balance.'', db1)
                     else
                       (case (start, end', leaveDays) of
                          (Some s, Some e, Some days) \<Rightarrow>
                            let employeeId = the (user_id u);
                                leaveRequest =
                                  new_leaveRequest rt u employeeId
                                    (local_midnight rt s) (local_midnight rt e)
                                    (the (leaveType body)) (the (reason body)) days;
                                key = ''leave_'' @ decimal (clock rt) @ ''_'' @ employeeId
                            in (Response 201 ''Leave request submitted successfully'',
                                db1 \<lparr> LeaveRequests := (LeaveRequests db1)(key \<mapsto> leaveRequest) \<rparr>)
                        | _ \<Rightarrow> (Response 500 ''Internal server error'', db1))))"

subsection \<open>\<^verbatim>\<open>PUT /leave/:id/approve\<close>\<close>

record approve_body =
  new_status :: "string option"
  comments :: "string option"

text \<open>
  The bindings visible where the handler calls \<^verbatim>\<open>updateLeaveBalance\<close>: the parameters
  and \<^verbatim>\<open>const\<close> declarations of the handler, then the declarations of the module.  A
  binding that holds a string carries it; the others hold objects and functions.
\<close>

definition approve_bindings ::
  "string \<Rightarrow> string \<Rightarrow> string option \<Rightarrow> string \<Rightarrow> (string \<times> string option) list" where
  "approve_bindings id' status' comments' managerId' =
     [(''req'', None), (''res'', None),
      (''id'', Some id'), (''status'', Some status'), (''comments'', comments'),
      (''managerId'', Some managerId'),
      (''result'', None), (''leaveRequest'', None), (''updateParams'', None),
      (''express'', None), (''router'', None), (''verifyToken'', None),
      (''checkAccess'', None), (''dynamo'', None),
      (''getDateDiffInDays'', None), (''getLeaveBalance'', None),
      (''updateLeaveBalance'', None)]"

text \<open>
  The handler; the path parameter \<^verbatim>\<open>id\<close> is a non-empty segment of the path.  The
  status update is written first; the balance update follows in a second step, only for
  \<^verbatim>\<open>approved\<close>.  Its first argument is the identifier
  \<^verbatim>\<open>employeeId\<close>, looked up in the bindings above: an identifier without a binding
  throws \<^verbatim>\<open>ReferenceError\<close>, which the \<^verbatim>\<open>catch\<close> answers with 500.
\<close>

definition put_leave_approve ::
  "runtime \<Rightarrow> leave_db \<Rightarrow> user \<Rightarrow> string \<Rightarrow> approve_body \<Rightarrow> response \<times> leave_db" where
  "put_leave_approve rt db u id' body =
     (if falsy_str (new_status body)
         \<or> the (new_status body) \<notin> set [''approved'', ''rejected'']
      then (Response 400 ''Invalid status. Must be \"approved\" or \"rejected\".'', db)
      else
        (case LeaveRequests db id' of
           None \<Rightarrow> (Response 404 ''Leave request not found'', db)
         | Some leaveRequest \<Rightarrow>
             if attr_truthy (leaveRequest ''managerId'')
                \<and> leaveRequest ''managerId'' \<noteq> map_option AStr (user_id u)
             then (Response 403 ''You are not authorized to approve this leave request.'', db)
             else if leaveRequest ''status'' \<noteq> Some (AStr ''pending'')
             then (Response 403 ''Leave request is not pending. Cannot approve or reject'', db)
             else
               (case user_id u of
                  None \<Rightarrow> (Response 500 ''Internal server error'', db)
                | Some managerId' \<Rightarrow>
                    let status' = the (new_status body);
                        updated = leaveRequest
                          (''status'' \<mapsto> AStr status',
                           ''approvedBy'' \<mapsto> AStr managerId',
                           ''approvedAt'' \<mapsto> AStr (toISOString rt (clock rt)),
                           ''comments'' \<mapsto>
                              AStr (if falsy_str (comments body) then [] else the (comments body)));
                        db1 = db \<lparr> LeaveRequests := (LeaveRequests db)(id' \<mapsto> updated) \<rparr>
                    in if status' = ''approved''
                       then
                         (case map_of (approve_bindings id' status' (comments body) managerId')
                                 ''employeeId'' of
                            None \<Rightarrow> (Response 500 ''Internal server error'', db1)
                          | Some None \<Rightarrow> (Response 500 ''Internal server error'', db1)
                          | Some (Some employeeId) \<Rightarrow>
                              (case updateLeaveBalance db1 employeeId
                                      (leaveRequest ''leaveType'') (leaveRequest ''leaveDays'') of
                                 Inl e \<Rightarrow> (Response 500 ''Internal server error'', db1)
                               | Inr db2 \<Rightarrow>
                                   (Response 200 ''Leave request approved successfully'', db2)))
                       else (Response 200 ''Leave request approved successfully'', db1))))"

section \<open>The leave routes over the users table\<close>

text \<open>
  A second set of leave routes stands in the sources, in the same document bundle as
  \<^verbatim>\<open>routes/orgChart.js\<close>: \<^verbatim>\<open>POST /leave/request\<close> there reads the submitter's item
  of the users table and records an approval chain.  Leave requests and balances share
  one table, keyed by \<^verbatim>\<open>id\<close>; log entries are appended to a third table.
\<close>

record hris_db =
  LEAVE_TABLE :: table
  USERS_TABLE :: table
  LOGS_TABLE :: "item list"

text \<open>An identifier inside a template string: \<^verbatim>\<open>undefined\<close> prints as that word.\<close>

fun template_id :: "string option \<Rightarrow> string" where
  "template_id None = ''undefined''"
| "template_id (Some s) = s"

text \<open>Here \<^verbatim>\<open>getDateDiffInDays\<close> counts both the first and the last day.\<close>

definition getDateDiffInDays_users ::
  "runtime \<Rightarrow> int option \<Rightarrow> int option \<Rightarrow> rat option" where
  "getDateDiffInDays_users rt startDt endDt =
     (case (startDt, endDt) of
        (Some s, Some e) \<Rightarrow>
          let start = local_midnight rt s;
              end' = local_midnight rt e;
              diffInMs = end' - start;
              diffInDays = of_int diffInMs / of_int (1000 * 60 * 60 * 24)
          in Some (diffInDays + 1)
      | _ \<Rightarrow> None)"

text \<open>An attribute whose value is \<^verbatim>\<open>undefined\<close> is left out of the item that is put.\<close>

definition defaultBalance_users :: "runtime \<Rightarrow> string option \<Rightarrow> item" where
  "defaultBalance_users rt userId =
     [''id'' \<mapsto> AStr (''balance_'' @ template_id userId),
      ''annual'' \<mapsto> ANum 20, ''sick'' \<mapsto> ANum 10, ''personal'' \<mapsto> ANum 5,
      ''maternity'' \<mapsto> ANum 90, ''paternity'' \<mapsto> ANum 10,
      ''created_at'' \<mapsto> AStr (toISOString rt (clock rt)),
      ''updated_at'' \<mapsto> AStr (toISOString rt (clock rt))]
     (''user_id'' := map_option AStr userId)"

definition getLeaveBalance_users ::
  "runtime \<Rightarrow> hris_db \<Rightarrow> string option \<Rightarrow> string \<Rightarrow> attr option \<times> hris_db" where
  "getLeaveBalance_users rt db userId lt =
     (let key = ''balance_'' @ template_id userId
      in case LEAVE_TABLE db key of
           None \<Rightarrow>
             (defaultBalance_users rt userId lt,
              db \<lparr> LEAVE_TABLE := (LEAVE_TABLE db)(key \<mapsto> defaultBalance_users rt userId) \<rparr>)
         | Some it \<Rightarrow> (it lt, db))"

text \<open>
  The approval chain: the submitter's \<^verbatim>\<open>manager_id\<close> when truthy, then the
  \<^verbatim>\<open>manager_id\<close> of the manager's item when that item exists and the value is truthy.
  The manager's item is read by key; the store rejects a key that is not a string.
\<close>

definition approval_chain :: "table \<Rightarrow> item \<Rightarrow> js_error + attr list" where
  "approval_chain users usr =
     (if attr_truthy (usr ''manager_id'')
      then
        (case usr ''manager_id'' of
           Some (AStr m) \<Rightarrow>
             (case users m of
                None \<Rightarrow> Inr [AStr m]
              | Some mgr \<Rightarrow>
                  if attr_truthy (mgr ''manager_id'')
                  then Inr [AStr m, the (mgr ''manager_id'')]
                  else Inr [AStr m])
         | _ \<Rightarrow> Inl StoreRejected)
      else Inr [])"

text \<open>The object literal \<^verbatim>\<open>leaveRequest\<close> of this handler.\<close>

definition new_leaveRequest_users ::
  "runtime \<Rightarrow> string \<Rightarrow> item \<Rightarrow> int \<Rightarrow> int \<Rightarrow> string \<Rightarrow> string \<Rightarrow> rat \<Rightarrow> attr list \<Rightarrow> item" where
  "new_leaveRequest_users rt userId usr start end' lt rsn leaveDays approverUserIds =
     [''id'' \<mapsto> AStr (''leave_'' @ uuidv4 rt 0),
      ''user_id'' \<mapsto> AStr userId,
      ''start_date'' \<mapsto> AStr (toISOString rt start),
      ''end_date'' \<mapsto> AStr (toISOString rt end'),
      ''leave_type'' \<mapsto> AStr lt,
      ''reason'' \<mapsto> AStr rsn,
      ''days'' \<mapsto> ANum leaveDays,
      ''status'' \<mapsto> AStr ''pending'',
      ''submitted_at'' \<mapsto> AStr (toISOString rt (clock rt)),
      ''approver_user_ids'' \<mapsto> AList approverUserIds,
      ''created_at'' \<mapsto> AStr (toISOString rt (clock rt)),
      ''updated_at'' \<mapsto> AStr (toISOString rt (clock rt))]
     (''department'' := usr ''department'')"

definition submitted_logEntry :: "runtime \<Rightarrow> string \<Rightarrow> item" where
  "submitted_logEntry rt userId =
     [''log_id'' \<mapsto> AStr (''log_'' @ uuidv4 rt 1),
      ''action_type'' \<mapsto> AStr ''leave_request_submitted'',
      ''performed_by_user_id'' \<mapsto> AStr userId,
      ''target_user_id'' \<mapsto> AStr userId,
      ''timestamp'' \<mapsto> AStr (toISOString rt (clock rt)),
      ''status'' \<mapsto> AStr ''completed'',
      ''notes'' \<mapsto> AStr ''Leave request submitted'']"

text \<open>
  The handler.  The balance item is read under the key \<^verbatim>\<open>balance_\<close> followed by the
  user id; the submitter's item of the users table is read under the user id itself, and
  the store rejects that key when it is \<^verbatim>\<open>undefined\<close> or empty.
\<close>

definition post_leave_request_users ::
  "runtime \<Rightarrow> hris_db \<Rightarrow> user \<Rightarrow> leave_body \<Rightarrow> response \<times> hris_db" where
  "post_leave_request_users rt db u body =
     (if falsy_str (startDate body) \<or> falsy_str (endDate body)
         \<or> falsy_str (leaveType body) \<or> falsy_str (reason body)
      then (Response 400 ''Required fields missing: startDate, endDate, leaveType, reason'', db)
      else
        let start = date_parse rt (the (startDate body));
            end' = date_parse rt (the (endDate body));
            today = Some (clock rt)
        in if date_le start today
           then (Response 400 ''Start date must be in the future'', db)
           else if date_le end' start
           then (Response 400 ''End date must be after start date'', db)
           else
             let leaveDays = getDateDiffInDays_users rt start end';
                 (leaveBalance, db1) =
                    getLeaveBalance_users rt db (user_id u) (the (leaveType body))
             in if js_lt_num leaveBalance leaveDays
                then (Response 400 ''Insufficient leave balance.'', db1)
                else
                  (case (if falsy_str (user_id u) then None else user_id u) of
                     None \<Rightarrow> (Response 500 ''Internal server error'', db1)
                   | Some userId \<Rightarrow>
                       (case USERS_TABLE db1 userId of
                          None \<Rightarrow> (Response 404 ''User not found'', db1)
                        | Some usr \<Rightarrow>
                            (case approval_chain (USERS_TABLE db1) usr of
                               Inl e \<Rightarrow> (Response 500 ''Internal server error'', db1)
                             | Inr approverUserIds \<Rightarrow>
                                 (case (start, end', leaveDays) of
                                    (Some s, Some e, Some days) \<Rightarrow>
                                      let leaveRequest =
                                            new_leaveRequest_users rt userId usr
                                              (local_midnight rt s) (local_midnight rt e)
                                              (the (leaveType body)) (the (reason body))
                                              days approverUserIds;
                                          db2 = db1 \<lparr> LEAVE_TABLE :=
                                                  (LEAVE_TABLE db1)
                                                    (''leave_'' @ uuidv4 rt 0 \<mapsto> leaveRequest) \<rparr>;
                                          db3 = db2 \<lparr> LOGS_TABLE :=
                                                  LOGS_TABLE db2 @ [submitted_logEntry rt userId] \<rparr>
                                      in (Response 201 ''Leave request submitted successfully'', db3)
                                  | _ \<Rightarrow> (Response 500 ''Internal server error'', db1))))))"

section \<open>\<^verbatim>\<open>routes/requests.js\<close>: \<^verbatim>\<open>PUT /requests/:id\<close>\<close>

text \<open>
  The requests table has the key \<^verbatim>\<open>(PK, SK)\<close>; it is the list of its items.  A query
  by \<^verbatim>\<open>PK\<close> returns the items of that partition.
\<close>

definition query_PK :: "item list \<Rightarrow> string \<Rightarrow> item list" where
  "query_PK tbl pk = filter (\<lambda>it. it ''PK'' = Some (AStr pk)) tbl"

text \<open>An update by key changes the item with that key.\<close>

fun update_by_key :: "item list \<Rightarrow> attr option \<Rightarrow> attr option \<Rightarrow> (item \<Rightarrow> item) \<Rightarrow> item list" where
  "update_by_key [] pk sk f = []"
| "update_by_key (it # rest) pk sk f =
     (if it ''PK'' = pk \<and> it ''SK'' = sk then f it # rest
      else it # update_by_key rest pk sk f)"

text \<open>
  What \<^verbatim>\<open>require('../middleware/checkApprovalAuthority')\<close> binds: a function of the
  actor and the employee's department, or an object.  Applying an object throws
  \<^verbatim>\<open>TypeError\<close>.  The module ends with
  \<^verbatim>\<open>module.exports = { canApprove, checkAuthority }\<close>: it exports an object.
\<close>

datatype authority_import =
    ExportsObject
  | ExportsFunction "user \<Rightarrow> attr option \<Rightarrow> bool"

definition checkApprovalAuthority_exports :: authority_import where
  "checkApprovalAuthority_exports = ExportsObject"

fun call_import :: "authority_import \<Rightarrow> user \<Rightarrow> attr option \<Rightarrow> js_error + bool" where
  "call_import ExportsObject u dept = Inl (TypeError ''checkApprovalAuthority is not a function'')"
| "call_import (ExportsFunction g) u dept = Inr (g u dept)"

text \<open>
  The handler, after \<^verbatim>\<open>verifyToken\<close> and \<^verbatim>\<open>checkAccess(3)\<close>.  Between the query and
  the update stands the authority call alone.  The store rejects an update with an
  \<^verbatim>\<open>undefined\<close> value or key.
\<close>

definition put_request ::
  "authority_import \<Rightarrow> runtime \<Rightarrow> item list \<Rightarrow> user \<Rightarrow> string \<Rightarrow> approve_body
     \<Rightarrow> response \<times> item list" where
  "put_request checkApprovalAuthority rt tbl u requestId body =
     (case new_status body of
        None \<Rightarrow> (Response 400 ''Invalid status'', tbl)
      | Some status' \<Rightarrow>
          if status' \<notin> set [''approved'', ''rejected'', ''pending'']
          then (Response 400 ''Invalid status'', tbl)
          else
            (case query_PK tbl (''REQUEST#'' @ requestId) of
               [] \<Rightarrow> (Response 404 ''Request not found'', tbl)
             | request' # others \<Rightarrow>
                 (case call_import checkApprovalAuthority u (request' ''employeeDepartment'') of
                    Inl e \<Rightarrow> (Response 500 ''Internal server error'', tbl)
                  | Inr canApprove' \<Rightarrow>
                      if \<not> canApprove'
                      then (Response 403 ''Unauthorized to update this request'', tbl)
                      else
                        (case (user_id u, user_name u, request' ''SK'') of
                           (Some approverId, Some approverName, Some sk) \<Rightarrow>
                             let timestamp' = toISOString rt (clock rt);
                                 upd = (\<lambda>it. it
                                   (''status'' \<mapsto> AStr status',
                                    ''updatedAt'' \<mapsto> AStr timestamp',
                                    ''approverComments'' \<mapsto>
                                       (if falsy_str (comments body) then ANull
                                        else AStr (the (comments body))),
                                    ''approverId'' \<mapsto> AStr approverId,
                                    ''approverName'' \<mapsto> AStr approverName,
                                    ''GSI2SK'' \<mapsto> AStr (''STATUS#'' @ status' @ ''#'' @ timestamp')))
                             in (Response 200 ''Request updated successfully'',
                                 update_by_key tbl (Some (AStr (''REQUEST#'' @ requestId)))
                                   (Some sk) upd)
                         | _ \<Rightarrow> (Response 500 ''Internal server error'', tbl)))))"

section \<open>Reading the tables\<close>

text \<open>The attribute \<open>name\<close> of the item stored under \<open>key\<close>, if there is one.\<close>

definition attr_of :: "table \<Rightarrow> string \<Rightarrow> string \<Rightarrow> attr option" where
  "attr_of tbl key name = (case tbl key of None \<Rightarrow> None | Some it \<Rightarrow> it name)"

text \<open>The \<^verbatim>\<open>status\<close> attributes of the items of a partition of the requests table.\<close>

definition status_of :: "item list \<Rightarrow> string \<Rightarrow> attr option list" where
  "status_of tbl pk = map (\<lambda>it. it ''status'') (query_PK tbl pk)"

text \<open>
  The manager's manager in the specification's words: the \<^verbatim>\<open>manager_id\<close> of the
  manager's item in the users table, when that item exists and names one.
\<close>

definition managers_manager :: "table \<Rightarrow> string \<Rightarrow> attr option" where
  "managers_manager users m =
     (case users m of
        None \<Rightarrow> None
      | Some mgr \<Rightarrow> if attr_truthy (mgr ''manager_id'') then mgr ''manager_id'' else None)"

section \<open>Example data\<close>

text \<open>Actors, stores, caches and tables on which the theorems below are evaluated.\<close>

definition manager_sales :: user where
  "manager_sales = \<lparr> user_id = Some ''u3'', user_name = Some ''N'', accessLevel = Some 3,
     department = Some ''sales'', managerId = None, user_permissions = None,
     user_roles = None \<rparr>"

text \<open>A store whose scans fail, and one that holds a custom permission and two roles.\<close>

definition store_down :: policy_store where
  "store_down = \<lparr> scan_permissions = Inl (StoreError ''timeout''),
                   scan_roles = Inl (StoreError ''timeout'') \<rparr>"

definition store_up :: policy_store where
  "store_up = \<lparr>
     scan_permissions = Inr [\<lparr> permissionName = ''reports.custom'', requiredLevel = Some 2,
                               perm_description = Some ''Custom reports'',
                               other_attributes = Map.empty \<rparr>],
     scan_roles = Inr [\<lparr> roleId = ''r_admin'', roleName = Some ''Administrator'',
                         role_permissions = Some [''*''] \<rparr>,
                       \<lparr> roleId = ''r_docs'', roleName = Some ''Document clerk'',
                         role_permissions = Some [''documents.delete''] \<rparr>] \<rparr>"

definition world_up :: world where
  "world_up = \<lparr> now_check = 1000000, now_refresh = 1000040, store = store_up \<rparr>"

definition world_down :: world where
  "world_down = \<lparr> now_check = 1000000, now_refresh = 1000040, store = store_down \<rparr>"

definition stale_cache :: permissionsCache where
  "stale_cache = \<lparr> timestamp = Some 600000,
     permissions = [''reports.custom'' \<mapsto>
        \<lparr> permissionName = ''reports.custom'', requiredLevel = Some 2,
          perm_description = Some ''Custom reports'',
                               other_attributes = Map.empty \<rparr>],
     roles = [''r_docs'' \<mapsto>
        \<lparr> roleId = ''r_docs'', roleName = Some ''Document clerk'',
          role_permissions = Some [''documents.delete''] \<rparr>] \<rparr>"

definition intern :: user where
  "intern = \<lparr> user_id = Some ''u1'', user_name = Some ''N'', accessLevel = Some 1,
     department = Some ''sales'', managerId = None,
     user_permissions = Some [''system.settings'' \<mapsto> JBool True], user_roles = None \<rparr>"

definition contractor :: user where
  "contractor = \<lparr> user_id = Some ''u2'', user_name = Some ''N'', accessLevel = Some 1,
     department = Some ''ops'', managerId = None,
     user_permissions = None,
     user_roles = Some [''r_gone'', ''r_admin'', ''r_docs''] \<rparr>"

definition plain_actor :: "int \<Rightarrow> user" where
  "plain_actor n = \<lparr> user_id = Some ''u4'', user_name = Some ''N'', accessLevel = Some n,
     department = Some ''ops'', managerId = None,
     user_permissions = Some Map.empty, user_roles = Some [] \<rparr>"

definition admin_plain :: user where
  "admin_plain = \<lparr> user_id = Some ''u6'', user_name = Some ''N'', accessLevel = Some 5,
     department = Some ''ops'', managerId = None, user_permissions = None,
     user_roles = None \<rparr>"

definition shadowed :: user where
  "shadowed = \<lparr> user_id = Some ''u5'', user_name = Some ''N'', accessLevel = Some 1,
     department = Some ''ops'', managerId = None,
     user_permissions = Some [''toString'' \<mapsto> JBool False], user_roles = None \<rparr>"

text \<open>
  A run time in the time zone UTC; the two dates it parses are midnights.  The leave tables
  hold a pending request \<open>L1\<close> and an approved one \<open>L2\<close>, the requests table a
  pending \<open>R1\<close> and an approved \<open>R2\<close>; in the users table \<open>e1\<close> reports to
  \<open>m1\<close>, who reports to \<open>m0\<close>, who reports to nobody.
\<close>

definition example_runtime :: runtime where
  "example_runtime = \<lparr> clock = 1700000000000,
     date_parse = (\<lambda>s. if s = ''2030-01-10'' then Some 1894233600000
                        else if s = ''2030-01-12'' then Some 1894406400000 else None),
     local_midnight = (\<lambda>t. t - t mod 86400000),
     toISOString = (\<lambda>t. ''T'' @ decimal t),
     uuidv4 = (\<lambda>n. ''uuid-'' @ decimal (int n)) \<rparr>"

definition leave_L1 :: item where
  "leave_L1 = [''id'' \<mapsto> AStr ''L1'', ''employeeId'' \<mapsto> AStr ''e1'',
     ''leaveType'' \<mapsto> AStr ''annual'', ''leaveDays'' \<mapsto> ANum 2,
     ''status'' \<mapsto> AStr ''pending'', ''managerId'' \<mapsto> AStr ''m1'']"

definition leave_db0 :: leave_db where
  "leave_db0 = \<lparr> LeaveRequests = [''L1'' \<mapsto> leave_L1,
                                    ''L2'' \<mapsto> leave_L1(''id'' \<mapsto> AStr ''L2'',
                                                         ''status'' \<mapsto> AStr ''approved'')],
                  LeaveBalances = [''e1'' \<mapsto> defaultBalance ''e1''] \<rparr>"

definition manager_m1 :: user where
  "manager_m1 = \<lparr> user_id = Some ''m1'', user_name = Some ''Mira'', accessLevel = Some 4,
     department = Some ''sales'', managerId = None, user_permissions = None,
     user_roles = None \<rparr>"

definition approve :: approve_body where
  "approve = \<lparr> new_status = Some ''approved'', comments = None \<rparr>"

definition reject :: approve_body where
  "reject = \<lparr> new_status = Some ''rejected'', comments = None \<rparr>"

definition request_R1 :: item where
  "request_R1 = [''PK'' \<mapsto> AStr ''REQUEST#R1'', ''SK'' \<mapsto> AStr ''EMPLOYEE#e1'',
     ''requestId'' \<mapsto> AStr ''R1'', ''employeeId'' \<mapsto> AStr ''e1'',
     ''employeeDepartment'' \<mapsto> AStr ''sales'', ''type'' \<mapsto> AStr ''equipment'',
     ''status'' \<mapsto> AStr ''pending'']"

definition request_R2 :: item where
  "request_R2 = [''PK'' \<mapsto> AStr ''REQUEST#R2'', ''SK'' \<mapsto> AStr ''EMPLOYEE#e1'',
     ''requestId'' \<mapsto> AStr ''R2'', ''employeeId'' \<mapsto> AStr ''e1'',
     ''employeeDepartment'' \<mapsto> AStr ''sales'', ''type'' \<mapsto> AStr ''equipment'',
     ''status'' \<mapsto> AStr ''approved'']"

definition requests0 :: "item list" where
  "requests0 = [request_R1, request_R2]"

definition allow_all :: authority_import where
  "allow_all = ExportsFunction (\<lambda>u dept. True)"

definition employee_e1 :: user where
  "employee_e1 = \<lparr> user_id = Some ''e1'', user_name = Some ''Eli'', accessLevel = Some 1,
     department = Some ''sales'', managerId = Some ''m1'', user_permissions = None,
     user_roles = None \<rparr>"

definition leave_body0 :: leave_body where
  "leave_body0 = \<lparr> startDate = Some ''2030-01-10'', endDate = Some ''2030-01-12'',
     leaveType = Some ''annual'', reason = Some ''family'' \<rparr>"

definition users0 :: table where
  "users0 = [''e1'' \<mapsto> [''user_id'' \<mapsto> AStr ''e1'', ''manager_id'' \<mapsto> AStr ''m1'',
                          ''department'' \<mapsto> AStr ''sales''],
             ''e2'' \<mapsto> [''user_id'' \<mapsto> AStr ''e2'', ''manager_id'' \<mapsto> AStr ''m0'',
                          ''department'' \<mapsto> AStr ''sales''],
             ''m1'' \<mapsto> [''user_id'' \<mapsto> AStr ''m1'', ''manager_id'' \<mapsto> AStr ''m0'',
                          ''department'' \<mapsto> AStr ''sales''],
             ''m0'' \<mapsto> [''user_id'' \<mapsto> AStr ''m0'', ''department'' \<mapsto> AStr ''board'']]"

definition hris_db0 :: hris_db where
  "hris_db0 = \<lparr> LEAVE_TABLE = Map.empty, USERS_TABLE = users0, LOGS_TABLE = [] \<rparr>"

definition employee_e2 :: user where
  "employee_e2 = employee_e1 \<lparr> user_id := Some ''e2'', managerId := Some ''m0'' \<rparr>"

section \<open>Lemmas about the decision procedure\<close>

lemma roles_loop_iff:
  "roles_loop cache f rs = (\<exists>rid \<in> set rs. role_grants cache f rid)"
  by (induction rs) auto

lemma roles_check_iff:
  "roles_check cache f u =
     (\<exists>rs. user_roles u = Some rs \<and> (\<exists>rid \<in> set rs. role_grants cache f rid))"
  by (cases "user_roles u") (auto simp: roles_check_def roles_loop_iff)

lemma default_levels_on_scale:
  assumes "map_of defaultFeaturePermissions f = Some (lvl, d)"
  shows "1 \<le> lvl \<and> lvl \<le> 5"
proof -
  from assms have "(f, lvl, d) \<in> set defaultFeaturePermissions"
    by (rule map_of_SomeD)
  then show ?thesis
    unfolding defaultFeaturePermissions_def by auto
qed

lemma cached_permission_stored:
  "permissions cache f = Some item \<Longrightarrow> cached_permission cache f = StoredItem item"
  by (simp add: cached_permission_def)

lemma cached_permission_not_stored:
  "permissions cache f = None \<Longrightarrow> cached_permission cache f \<noteq> StoredItem item"
  by (simp add: cached_permission_def inherited_builtin_def split: option.splits)

lemma cached_permission_plain:
  assumes "f \<notin> set object_prototype_members" and "permissions cache ''__proto__'' = None"
  shows "cached_permission cache f \<noteq> ForeignValue True"
  using assms
  by (simp add: cached_permission_def inherited_builtin_def split: option.splits)

lemma default_info_level:
  "requiredLevel (default_info f) =
     Some (case map_of defaultFeaturePermissions f of None \<Rightarrow> 5 | Some (lvl, d) \<Rightarrow> lvl)"
proof (cases "map_of defaultFeaturePermissions f")
  case None
  then show ?thesis by (simp add: default_info_def default_requiredLevel_def)
next
  case (Some p)
  obtain lvl d where p: "p = (lvl, d)" by (cases p)
  with Some default_levels_on_scale [of f lvl d] have "lvl \<noteq> 0" by auto
  with Some p show ?thesis by (simp add: default_info_def default_requiredLevel_def)
qed

lemma requiredLevel_permissionInfo:
  assumes "cached_permission cache f \<noteq> ForeignValue True"
  shows "info_requiredLevel (permissionInfo cache f) = requiredLevel_spec cache f"
proof (cases "permissions cache f")
  case (Some item)
  then show ?thesis
    by (simp add: permissionInfo_def cached_permission_stored requiredLevel_spec_def)
next
  case None
  have "permissionInfo cache f = InfoItem (default_info f)"
  proof (cases "cached_permission cache f")
    case NoMember
    then show ?thesis by (simp add: permissionInfo_def)
  next
    case (StoredItem item)
    with None show ?thesis by (simp add: cached_permission_not_stored)
  next
    case (ForeignValue t)
    with assms show ?thesis by (simp add: permissionInfo_def)
  qed
  with None show ?thesis
    by (simp add: default_info_level requiredLevel_spec_def split: option.splits)
qed

lemma inherited_member_has_no_level:
  assumes "cached_permission cache f = ForeignValue True"
  shows "info_requiredLevel (permissionInfo cache f) = None"
  using assms by (simp add: permissionInfo_def)

lemma canPerform_body_iff:
  "canPerform_body cache f u =
     (has_override u f \<or> roles_check cache f u
      \<or> js_ge (accessLevel u) (info_requiredLevel (permissionInfo cache f)))"
  by (simp add: canPerform_body_def Let_def)

lemma authorizeFeature_authenticated:
  assumes "\<not> falsy_str (user_id u)"
  shows "authorizeFeature f w cache \<lparr> req_user = Some u \<rparr> =
           (if canPerform_body (cache_in_effect w cache) f u then Next
            else Respond 403 ''You do not have permission to access this feature'',
            cache_in_effect w cache)"
  using assms by (simp add: authorizeFeature_def canPerform_body_def Let_def)

lemma has_override_lacks:
  "has_override u f \<Longrightarrow> \<not> lacks_critical_data u"
  by (auto simp: has_override_def lacks_critical_data_def split: option.splits)

lemma roles_examined_prefix:
  assumes "role_grants cache f rid" and "\<forall>p \<in> set pre. \<not> role_grants cache f p"
  shows "roles_examined cache f (pre @ rid # post) = pre @ [rid]"
  using assms by (induction pre) auto

lemma canPerform_Some:
  "canPerform w cache f (Some u) =
     (if lacks_critical_data u then (False, cache)
      else (canPerform_body (cache_in_effect w cache) f u, cache_in_effect w cache))"
  by (simp add: canPerform_def Let_def)

lemma roles_order_irrelevant:
  assumes "set rs1 = set rs2"
  shows "canPerform w cache f (Some (u \<lparr> user_roles := Some rs1 \<rparr>)) =
         canPerform w cache f (Some (u \<lparr> user_roles := Some rs2 \<rparr>))"
proof -
  have "roles_check c f (u \<lparr> user_roles := Some rs1 \<rparr>) =
        roles_check c f (u \<lparr> user_roles := Some rs2 \<rparr>)" for c
    using assms by (simp add: roles_check_iff)
  moreover have "has_override (u \<lparr> user_roles := Some rs1 \<rparr>) f =
      has_override (u \<lparr> user_roles := Some rs2 \<rparr>) f"
    by (simp add: has_override_def)
  moreover have "lacks_critical_data (u \<lparr> user_roles := Some rs1 \<rparr>) =
      lacks_critical_data (u \<lparr> user_roles := Some rs2 \<rparr>)"
    by (simp add: lacks_critical_data_def)
  ultimately show ?thesis
    by (simp add: canPerform_Some canPerform_body_iff)
qed

lemma refresh_fails:
  assumes "isl (scan_permissions st) \<or> isl (scan_roles st)"
  shows "refreshPermissionsCache t st cache = (False, cache)"
  using assms by (auto simp: refreshPermissionsCache_def isl_def split: sum.splits)

lemma builtin_only:
  assumes "f \<notin> set object_prototype_members"
  shows "canPerform_body initial_cache f u =
     (has_override u f \<or>
      js_ge (accessLevel u)
        (Some (case map_of defaultFeaturePermissions f of None \<Rightarrow> 5 | Some (lvl, d) \<Rightarrow> lvl)))"
proof -
  have "\<not> roles_check initial_cache f u"
    by (simp add: roles_check_iff role_grants_def initial_cache_def)
  moreover have "cached_permission initial_cache f \<noteq> ForeignValue True"
    using assms by (rule cached_permission_plain) (simp add: initial_cache_def)
  moreover have "requiredLevel_spec initial_cache f =
      Some (case map_of defaultFeaturePermissions f of None \<Rightarrow> 5 | Some (lvl, d) \<Rightarrow> lvl)"
    by (simp add: requiredLevel_spec_def initial_cache_def split: option.splits)
  ultimately show ?thesis
    by (simp add: canPerform_body_iff requiredLevel_permissionInfo)
qed

lemma inherited_only:
  assumes "f \<in> set object_prototype_members"
  shows "canPerform_body initial_cache f u = has_override u f"
proof -
  have "\<not> roles_check initial_cache f u"
    by (simp add: roles_check_iff role_grants_def initial_cache_def)
  moreover have "cached_permission initial_cache f = ForeignValue True"
    using assms by (simp add: cached_permission_def inherited_builtin_def initial_cache_def)
  ultimately show ?thesis
    by (simp add: canPerform_body_iff inherited_member_has_no_level)
qed

lemma has_override_falsy:
  assumes "user_permissions u = Some perms" and "perms f = Some v" and "\<not> truthy v"
      and "f \<notin> set object_prototype_members"
  shows "has_override u f = has_override (u \<lparr> user_permissions := Some (perms(f := None)) \<rparr>) f"
  using assms by (simp add: has_override_def)

lemma builtin_settings:
  "map_of defaultFeaturePermissions ''system.settings'' = Some (5, ''Manage system settings'')"
  by (simp add: defaultFeaturePermissions_def)

lemma builtin_unknown: "map_of defaultFeaturePermissions ''payroll.run'' = None"
  by (simp add: defaultFeaturePermissions_def)

lemma world_up_cache:
  "cache_in_effect world_up initial_cache =
     \<lparr> timestamp = Some 1000040,
       permissions = [''reports.custom'' \<mapsto>
          \<lparr> permissionName = ''reports.custom'', requiredLevel = Some 2,
            perm_description = Some ''Custom reports'',
                               other_attributes = Map.empty \<rparr>],
       roles = [''r_admin'' \<mapsto> \<lparr> roleId = ''r_admin'', roleName = Some ''Administrator'',
                         role_permissions = Some [''*''] \<rparr>,
                ''r_docs'' \<mapsto> \<lparr> roleId = ''r_docs'', roleName = Some ''Document clerk'',
                         role_permissions = Some [''documents.delete''] \<rparr>] \<rparr>"
  by (simp add: cache_in_effect_def world_up_def initial_cache_def store_up_def
      refreshPermissionsCache_def)

lemma builtin_documents:
  "map_of defaultFeaturePermissions ''documents.upload'' = Some (1, ''Upload own documents'')"
  "map_of defaultFeaturePermissions ''documents.delete'' = Some (4, ''Delete documents'')"
  by (simp_all add: defaultFeaturePermissions_def)

lemma builtin_custom: "map_of defaultFeaturePermissions ''reports.custom'' = None"
  by (simp add: defaultFeaturePermissions_def)

lemma plain_actor_premises:
  "f \<notin> set object_prototype_members \<Longrightarrow> \<not> has_override (plain_actor n) f"
  "\<forall>rs. user_roles (plain_actor n) = Some rs \<longrightarrow> (\<forall>rid \<in> set rs. \<not> role_grants c f rid)"
  by (auto simp: plain_actor_def has_override_def)

lemma access_level_fallback_stored_names:
  assumes no_override: "\<not> has_override u f"
      and no_role: "\<forall>rs. user_roles u = Some rs \<longrightarrow>
                      (\<forall>rid \<in> set rs. \<not> role_grants (cache_in_effect w cache) f rid)"
      and scale: "accessLevel u \<noteq> Some 0
                  \<or> (\<forall>r. requiredLevel_spec (cache_in_effect w cache) f = Some r \<longrightarrow> 1 \<le> r)"
      and stored: "cached_permission (cache_in_effect w cache) f \<noteq> ForeignValue True"
  shows "fst (canPerform w cache f (Some u)) =
           js_ge (accessLevel u) (requiredLevel_spec (cache_in_effect w cache) f)
         \<and> (permissions (cache_in_effect w cache) f = None
              \<and> map_of defaultFeaturePermissions f = None \<longrightarrow>
                (accessLevel u = Some 4 \<longrightarrow> fst (canPerform w cache f (Some u)) = False)
              \<and> (accessLevel u = Some 5 \<longrightarrow> fst (canPerform w cache f (Some u)) = True))"
proof -
  let ?c = "cache_in_effect w cache"
  from no_role have nr: "\<not> roles_check ?c f u"
    by (auto simp: roles_check_iff)
  have main: "fst (canPerform w cache f (Some u)) = js_ge (accessLevel u) (requiredLevel_spec ?c f)"
  proof (cases "lacks_critical_data u")
    case True
    then have falsy: "falsy_num (accessLevel u)"
      by (simp add: lacks_critical_data_def)
    have "\<not> js_ge (accessLevel u) (requiredLevel_spec ?c f)"
    proof (cases "accessLevel u")
      case None
      then show ?thesis by simp
    next
      case (Some n)
      with falsy have zero: "accessLevel u = Some 0" by simp
      with scale have "\<forall>r. requiredLevel_spec ?c f = Some r \<longrightarrow> 1 \<le> r" by simp
      with zero show ?thesis
        by (cases "requiredLevel_spec ?c f") auto
    qed
    with True show ?thesis by (simp add: canPerform_Some)
  next
    case False
    with no_override nr stored show ?thesis
      by (simp add: canPerform_Some canPerform_body_iff requiredLevel_permissionInfo)
  qed
  have unknown: "requiredLevel_spec ?c f = Some 5"
    if "permissions ?c f = None" and "map_of defaultFeaturePermissions f = None"
    using that by (simp add: requiredLevel_spec_def)
  from main unknown show ?thesis by auto
qed

lemma falsy_override_same_as_absent_own_names:
  assumes "user_permissions u = Some perms" and "perms f = Some v" and "\<not> truthy v"
      and "f \<notin> set object_prototype_members"
  shows "canPerform w cache f (Some u) =
           canPerform w cache f (Some (u \<lparr> user_permissions := Some (perms(f := None)) \<rparr>))
         \<and> authorizeFeature f w cache \<lparr> req_user = Some u \<rparr> =
           authorizeFeature f w cache
             \<lparr> req_user = Some (u \<lparr> user_permissions := Some (perms(f := None)) \<rparr>) \<rparr>"
proof -
  let ?u' = "u \<lparr> user_permissions := Some (perms(f := None)) \<rparr>"
  have ov: "has_override u f = has_override ?u' f"
    using assms by (rule has_override_falsy)
  have lack: "lacks_critical_data u = lacks_critical_data ?u'"
    using assms(1) by (simp add: lacks_critical_data_def)
  have rc: "roles_check c f u = roles_check c f ?u'" for c
    by (simp add: roles_check_def)
  have body: "canPerform_body c f u = canPerform_body c f ?u'" for c
    by (simp add: canPerform_body_iff ov rc)
  have "canPerform w cache f (Some u) = canPerform w cache f (Some ?u')"
    by (simp add: canPerform_Some lack body)
  moreover have "authorizeFeature f w cache \<lparr> req_user = Some u \<rparr> =
      authorizeFeature f w cache \<lparr> req_user = Some ?u' \<rparr>"
  proof (cases "falsy_str (user_id u)")
    case True
    then show ?thesis by (simp add: authorizeFeature_def)
  next
    case False
    then show ?thesis by (simp add: authorizeFeature_authenticated body)
  qed
  ultimately show ?thesis by simp
qed

section \<open>Lemmas about the leave and request handlers\<close>

lemma employeeId_unbound:
  "map_of (approve_bindings i s c m) ''employeeId'' = None"
  by (simp add: approve_bindings_def)

lemma leave_not_pending_unchanged:
  assumes "LeaveRequests db i = Some it" and "it ''status'' \<noteq> Some (AStr ''pending'')"
  shows "snd (put_leave_approve rt db u i body) = db
         \<and> (\<exists>msg. fst (put_leave_approve rt db u i body) = Response 400 msg
                  \<or> fst (put_leave_approve rt db u i body) = Response 403 msg)"
  using assms by (simp add: put_leave_approve_def)

lemma approve_never_touches_balances:
  "LeaveBalances (snd (put_leave_approve rt db u i body)) = LeaveBalances db"
  by (simp add: put_leave_approve_def employeeId_unbound Let_def split: option.splits)

lemma put_request_status_codes:
  "\<exists>code msg. fst (put_request imp rt tbl u rid body) = Response code msg
     \<and> code \<in> {200, 400, 403, 404, 500}"
  by (auto simp: put_request_def Let_def split: option.splits list.splits sum.splits)

lemma getLeaveBalance_users_keeps_users:
  "USERS_TABLE (snd (getLeaveBalance_users rt db uid lt)) = USERS_TABLE db"
  by (simp add: getLeaveBalance_users_def Let_def split: option.splits)

lemma new_leaveRequest_manager:
  "new_leaveRequest rt u employeeId s e lt rsn days ''managerId'' =
     Some (if falsy_str (managerId u) then ANull else AStr (the (managerId u)))"
  "new_leaveRequest rt u employeeId s e lt rsn days ''approverUserIds'' = None"
  "new_leaveRequest rt u employeeId s e lt rsn days ''approver_user_ids'' = None"
  by (simp_all add: new_leaveRequest_def)

lemma getLeaveBalance_Inr:
  assumes "getLeaveBalance db employeeId lt = Inr r"
  shows "\<exists>e. employeeId = Some e \<and> e \<noteq> []"
  using assms by (cases employeeId) (auto simp: getLeaveBalance_def split: if_splits)

lemma post_leave_request_created:
  assumes "fst (post_leave_request rt db u body) = Response 201 msg"
  shows "\<exists>employeeId. user_id u = Some employeeId
           \<and> attr_of (LeaveRequests (snd (post_leave_request rt db u body)))
                (''leave_'' @ decimal (clock rt) @ ''_'' @ employeeId) ''managerId'' =
               Some (if falsy_str (managerId u) then ANull else AStr (the (managerId u)))
           \<and> attr_of (LeaveRequests (snd (post_leave_request rt db u body)))
                (''leave_'' @ decimal (clock rt) @ ''_'' @ employeeId) ''approverUserIds'' = None
           \<and> attr_of (LeaveRequests (snd (post_leave_request rt db u body)))
                (''leave_'' @ decimal (clock rt) @ ''_'' @ employeeId) ''approver_user_ids'' = None"
  using assms
  by (auto simp: post_leave_request_def Let_def attr_of_def new_leaveRequest_manager
      split: if_splits option.splits prod.splits sum.splits dest!: getLeaveBalance_Inr)

lemma post_leave_request_users_created:
  assumes "fst (post_leave_request_users rt db u body) = Response 201 msg"
  shows "\<exists>userId usr chain. user_id u = Some userId \<and> USERS_TABLE db userId = Some usr
           \<and> approval_chain (USERS_TABLE db) usr = Inr chain
           \<and> attr_of (LEAVE_TABLE (snd (post_leave_request_users rt db u body)))
                (''leave_'' @ uuidv4 rt 0) ''approver_user_ids'' = Some (AList chain)"
proof -
  obtain bal db1 where g: "getLeaveBalance_users rt db (user_id u) (the (leaveType body)) = (bal, db1)"
    by (cases "getLeaveBalance_users rt db (user_id u) (the (leaveType body))")
  have users: "USERS_TABLE db1 = USERS_TABLE db"
    using getLeaveBalance_users_keeps_users [of rt db "user_id u" "the (leaveType body)"] g
    by simp
  show ?thesis
    using assms g users
    by (auto simp: post_leave_request_users_def Let_def attr_of_def new_leaveRequest_users_def
        split: if_splits option.splits prod.splits sum.splits)
qed

lemma approval_chain_cases:
  assumes "approval_chain users usr = Inr chain"
  shows "(\<not> attr_truthy (usr ''manager_id'') \<longrightarrow> chain = [])
       \<and> (\<forall>m. usr ''manager_id'' = Some (AStr m) \<and> m \<noteq> [] \<longrightarrow>
             (managers_manager users m = None \<longrightarrow> chain = [AStr m])
           \<and> (\<forall>mm. managers_manager users m = Some mm \<longrightarrow> chain = [AStr m, mm]))"
  using assms
  by (auto simp: approval_chain_def managers_manager_def split: if_splits option.splits attr.splits)

lemma example_dates:
  "date_parse example_runtime ''2030-01-10'' = Some 1894233600000"
  "date_parse example_runtime ''2030-01-12'' = Some 1894406400000"
  "clock example_runtime = 1700000000000"
  "local_midnight example_runtime 1894233600000 = 1894233600000"
  "local_midnight example_runtime 1894406400000 = 1894406400000"
  "uuidv4 example_runtime 0 = ''uuid-0''"
  by (simp_all add: example_runtime_def decimal_def decimal_nat.simps digit_char_def)

lemma decimal_clock: "decimal 1700000000000 = ''1700000000000''"
  by (simp add: decimal_def decimal_nat.simps digit_char_def)

lemma example_created:
  "fst (post_leave_request example_runtime leave_db0 employee_e1 leave_body0) =
     Response 201 ''Leave request submitted successfully''"
  by (simp add: post_leave_request_def leave_body0_def example_dates getDateDiffInDays_def
      getLeaveBalance_def leave_db0_def employee_e1_def defaultBalance_def Let_def)

lemma example_users_created:
  "fst (post_leave_request_users example_runtime hris_db0 employee_e1 leave_body0) =
     Response 201 ''Leave request submitted successfully''"
  "fst (post_leave_request_users example_runtime hris_db0 employee_e2 leave_body0) =
     Response 201 ''Leave request submitted successfully''"
  by (simp_all add: post_leave_request_users_def leave_body0_def example_dates
      getDateDiffInDays_users_def getLeaveBalance_users_def hris_db0_def employee_e1_def
      employee_e2_def defaultBalance_users_def users0_def approval_chain_def Let_def)

section \<open>Approval authority: the two resolvers\<close>

text \<open>
  C4.  The type-aware resolver \<^verbatim>\<open>canApprove\<close>: for every request type and every
  department flag it allows at level 5 and above; at level 4 it allows every type but the
  literal \<^verbatim>\<open>expense-high\<close>; at level 3 in the same department it allows exactly
  leave, training, equipment, expense, document and travel (so it denies expense-high,
  policy-exception, security-access, salary-change and every unrecognised type); at
  level 3 in another department and at every level below 3 it denies.
\<close>

theorem canApprove_table:
  "canApprove requestType lvl isSameDept =
     (5 \<le> lvl
      \<or> (lvl = 4 \<and> requestType \<noteq> ''expense-high'')
      \<or> (lvl = 3 \<and> isSameDept \<and>
           requestType \<in> {''leave'', ''training'', ''equipment'', ''expense'',
                            ''document'', ''travel''}))"
  by (auto simp: canApprove_def)

theorem canApprove_table_witness:
  "canApprove ''expense-high'' 4 True = False
   \<and> canApprove ''leave'' 4 False = True
   \<and> canApprove ''salary-change'' 3 True = False
   \<and> canApprove ''leave'' 3 False = False
   \<and> canApprove ''leave'' 3 True = True
   \<and> canApprove ''expense-high'' 5 False = True
   \<and> canApprove ''leave'' 2 True = False"
  using canApprove_table [of "''expense-high''" 4 True]
        canApprove_table [of "''leave''" 4 False]
        canApprove_table [of "''salary-change''" 3 True]
        canApprove_table [of "''leave''" 3 False]
        canApprove_table [of "''leave''" 3 True]
        canApprove_table [of "''expense-high''" 5 False]
        canApprove_table [of "''leave''" 2 True]
  by simp

text \<open>
  C5.  The department-only resolver \<^verbatim>\<open>checkAuthority\<close>, for an authenticated actor
  (a user with a non-empty id) whose access level is the number \<open>n\<close>: it allows when
  \<open>n \<ge> 5\<close>, allows when \<open>n = 4\<close> whatever the departments are, allows at \<open>n = 3\<close>
  exactly when the actor's department equals the employee's, and denies below 3.  No
  request type enters the function.
\<close>

theorem checkAuthority_table:
  assumes "req_user req = Some u" and "\<not> falsy_str (user_id u)"
      and "accessLevel u = Some n"
  shows "checkAuthority req employeeDepartment =
           (5 \<le> n \<or> n = 4 \<or> (n = 3 \<and> department u = employeeDepartment))"
  using assms by (auto simp: checkAuthority_def Let_def)

theorem checkAuthority_table_witness:
  "checkAuthority \<lparr> req_user = Some manager_sales \<rparr> (Some ''sales'') = True
   \<and> checkAuthority \<lparr> req_user = Some manager_sales \<rparr> (Some ''ops'') = False
   \<and> checkAuthority \<lparr> req_user = Some (manager_sales \<lparr> accessLevel := Some 4 \<rparr>) \<rparr>
        (Some ''ops'') = True
   \<and> checkAuthority \<lparr> req_user = Some (manager_sales \<lparr> accessLevel := Some 2 \<rparr>) \<rparr>
        (Some ''sales'') = False"
  using checkAuthority_table [of "\<lparr> req_user = Some manager_sales \<rparr>" manager_sales 3
          "Some ''sales''"]
        checkAuthority_table [of "\<lparr> req_user = Some manager_sales \<rparr>" manager_sales 3
          "Some ''ops''"]
        checkAuthority_table [of "\<lparr> req_user = Some (manager_sales \<lparr> accessLevel := Some 4 \<rparr>) \<rparr>"
          "manager_sales \<lparr> accessLevel := Some 4 \<rparr>" 4 "Some ''ops''"]
        checkAuthority_table [of "\<lparr> req_user = Some (manager_sales \<lparr> accessLevel := Some 2 \<rparr>) \<rparr>"
          "manager_sales \<lparr> accessLevel := Some 2 \<rparr>" 2 "Some ''sales''"]
  by (simp add: manager_sales_def)

section \<open>The decision procedure: overrides, roles, access level\<close>

text \<open>
  C1.  An explicit override decides first.  For every actor whose permission map holds a
  truthy entry for the feature, \<^verbatim>\<open>canPerform\<close> returns \<^verbatim>\<open>true\<close>, whatever the roles,
  the access level, the cache and the store are; and the middleware, given that actor
  with a non-empty id, calls \<^verbatim>\<open>next\<close>.
\<close>

theorem explicit_override_allows:
  assumes "user_permissions u = Some perms" and "perms f = Some v" and "truthy v"
  shows "fst (canPerform w cache f (Some u)) = True
         \<and> (\<not> falsy_str (user_id u) \<longrightarrow>
              fst (authorizeFeature f w cache \<lparr> req_user = Some u \<rparr>) = Next)"
proof -
  from assms have ov: "has_override u f"
    by (simp add: has_override_def)
  then have "\<not> lacks_critical_data u" by (rule has_override_lacks)
  with ov have "fst (canPerform w cache f (Some u)) = True"
    by (simp add: canPerform_def canPerform_body_iff Let_def)
  moreover from ov have "\<not> falsy_str (user_id u) \<Longrightarrow>
      fst (authorizeFeature f w cache \<lparr> req_user = Some u \<rparr>) = Next"
    by (simp add: authorizeFeature_authenticated canPerform_body_iff)
  ultimately show ?thesis by blast
qed

theorem explicit_override_allows_witness:
  "fst (canPerform world_down initial_cache ''system.settings'' (Some intern)) = True
   \<and> fst (authorizeFeature ''system.settings'' world_down initial_cache
            \<lparr> req_user = Some intern \<rparr>) = Next
   \<and> accessLevel intern = Some 1
   \<and> requiredLevel_spec initial_cache ''system.settings'' = Some 5"
proof -
  have "user_permissions intern = Some [''system.settings'' \<mapsto> JBool True]"
    by (simp add: intern_def)
  moreover have "[''system.settings'' \<mapsto> JBool True] ''system.settings'' = Some (JBool True)"
    by simp
  moreover have "truthy (JBool True)" by simp
  ultimately have
    "fst (canPerform world_down initial_cache ''system.settings'' (Some intern)) = True
     \<and> (\<not> falsy_str (user_id intern) \<longrightarrow>
          fst (authorizeFeature ''system.settings'' world_down initial_cache
                 \<lparr> req_user = Some intern \<rparr>) = Next)"
    by (rule explicit_override_allows)
  moreover have "\<not> falsy_str (user_id intern)" and "accessLevel intern = Some 1"
    by (simp_all add: intern_def)
  moreover have "requiredLevel_spec initial_cache ''system.settings'' = Some 5"
    by (simp add: requiredLevel_spec_def initial_cache_def builtin_settings)
  ultimately show ?thesis by blast
qed

text \<open>
  C2.  A role grant decides second.  If some role id of the actor resolves, in the cache
  the decision reads, to a role whose permission array contains the feature or the
  literal \<^verbatim>\<open>*\<close>, then \<^verbatim>\<open>canPerform\<close> returns \<^verbatim>\<open>true\<close> (and the middleware calls
  \<^verbatim>\<open>next\<close> for an authenticated actor), whatever the access level is.  Listing the
  same role ids in another order gives the same result, and the loop stops at the first
  granting role: the role ids behind it are not looked up.
\<close>

theorem role_grant_allows:
  "(user_roles u = Some rs \<and> rid \<in> set rs
      \<and> roles (cache_in_effect w cache) rid = Some role
      \<and> role_permissions role = Some ps
      \<and> (f \<in> set ps \<or> ''*'' \<in> set ps) \<longrightarrow>
        fst (canPerform w cache f (Some u)) = True
      \<and> (\<not> falsy_str (user_id u) \<longrightarrow>
           fst (authorizeFeature f w cache \<lparr> req_user = Some u \<rparr>) = Next)
      \<and> (\<forall>pre post. rs = pre @ rid # post
             \<and> (\<forall>p \<in> set pre. \<not> role_grants (cache_in_effect w cache) f p) \<longrightarrow>
           roles_examined (cache_in_effect w cache) f rs = pre @ [rid]))
   \<and> (\<forall>rs1 rs2. set rs1 = set rs2 \<longrightarrow>
         canPerform w cache f (Some (u \<lparr> user_roles := Some rs1 \<rparr>)) =
         canPerform w cache f (Some (u \<lparr> user_roles := Some rs2 \<rparr>)))"
proof (intro conjI impI allI)
  let ?c = "cache_in_effect w cache"
  assume a: "user_roles u = Some rs \<and> rid \<in> set rs \<and> roles ?c rid = Some role
      \<and> role_permissions role = Some ps \<and> (f \<in> set ps \<or> ''*'' \<in> set ps)"
  then have g: "role_grants ?c f rid"
    by (auto simp: role_grants_def)
  with a have rc: "roles_check ?c f u"
    by (auto simp: roles_check_iff)
  from a have present: "\<not> lacks_critical_data u"
    by (simp add: lacks_critical_data_def)
  from rc present show "fst (canPerform w cache f (Some u)) = True"
    by (simp add: canPerform_Some canPerform_body_iff)
  {
    assume "\<not> falsy_str (user_id u)"
    with rc show "fst (authorizeFeature f w cache \<lparr> req_user = Some u \<rparr>) = Next"
      by (simp add: authorizeFeature_authenticated canPerform_body_iff)
  }
  {
    fix pre post
    assume "rs = pre @ rid # post \<and> (\<forall>p \<in> set pre. \<not> role_grants ?c f p)"
    with g show "roles_examined ?c f rs = pre @ [rid]"
      by (simp add: roles_examined_prefix)
  }
next
  fix rs1 rs2 :: "string list"
  assume "set rs1 = set rs2"
  then show "canPerform w cache f (Some (u \<lparr> user_roles := Some rs1 \<rparr>)) =
         canPerform w cache f (Some (u \<lparr> user_roles := Some rs2 \<rparr>))"
    by (rule roles_order_irrelevant)
qed

theorem role_grant_allows_witness:
  "fst (canPerform world_up initial_cache ''system.settings'' (Some contractor)) = True
   \<and> fst (authorizeFeature ''system.settings'' world_up initial_cache
            \<lparr> req_user = Some contractor \<rparr>) = Next
   \<and> canPerform world_up initial_cache ''system.settings''
        (Some (contractor \<lparr> user_roles := Some [''r_docs'', ''r_admin'', ''r_gone''] \<rparr>)) =
      canPerform world_up initial_cache ''system.settings'' (Some contractor)
   \<and> roles_examined (cache_in_effect world_up initial_cache) ''system.settings''
        [''r_gone'', ''r_admin'', ''r_docs''] = [''r_gone'', ''r_admin'']
   \<and> accessLevel contractor = Some 1
   \<and> requiredLevel_spec (cache_in_effect world_up initial_cache) ''system.settings'' = Some 5"
proof -
  let ?c = "cache_in_effect world_up initial_cache"
  let ?rs = "[''r_gone'', ''r_admin'', ''r_docs'']"
  let ?role = "\<lparr> roleId = ''r_admin'', roleName = Some ''Administrator'',
                 role_permissions = Some [''*''] \<rparr>"
  have a1: "user_roles contractor = Some ?rs" by (simp add: contractor_def)
  have a2: "''r_admin'' \<in> set ?rs" by simp
  have a3: "roles ?c ''r_admin'' = Some ?role" by (simp add: world_up_cache)
  have a4: "role_permissions ?role = Some [''*'']" by simp
  have a5: "''system.settings'' \<in> set [''*''] \<or> ''*'' \<in> set [''*'']" by simp
  have granted: "user_roles contractor = Some ?rs \<and> ''r_admin'' \<in> set ?rs
      \<and> roles ?c ''r_admin'' = Some ?role \<and> role_permissions ?role = Some [''*'']
      \<and> (''system.settings'' \<in> set [''*''] \<or> ''*'' \<in> set [''*''])"
    using a1 a2 a3 a4 a5 by blast
  note inst = role_grant_allows
    [of contractor ?rs "''r_admin''" world_up initial_cache ?role "[''*'']" "''system.settings''"]
  from inst granted
  have p1: "fst (canPerform world_up initial_cache ''system.settings'' (Some contractor)) = True"
    by blast
  have authd: "\<not> falsy_str (user_id contractor)" by (simp add: contractor_def)
  with inst granted have p2: "fst (authorizeFeature ''system.settings'' world_up initial_cache
            \<lparr> req_user = Some contractor \<rparr>) = Next"
    by blast
  have same: "set [''r_docs'', ''r_admin'', ''r_gone''] = set ?rs" by auto
  have unchanged: "contractor \<lparr> user_roles := Some ?rs \<rparr> = contractor"
    by (simp add: contractor_def)
  from inst same
  have "canPerform world_up initial_cache ''system.settings''
        (Some (contractor \<lparr> user_roles := Some [''r_docs'', ''r_admin'', ''r_gone''] \<rparr>)) =
      canPerform world_up initial_cache ''system.settings''
        (Some (contractor \<lparr> user_roles := Some ?rs \<rparr>))"
    by blast
  then have p3: "canPerform world_up initial_cache ''system.settings''
        (Some (contractor \<lparr> user_roles := Some [''r_docs'', ''r_admin'', ''r_gone''] \<rparr>)) =
      canPerform world_up initial_cache ''system.settings'' (Some contractor)"
    by (simp only: unchanged)
  have "?rs = [''r_gone''] @ ''r_admin'' # [''r_docs'']" by simp
  moreover have "\<forall>p \<in> set [''r_gone'']. \<not> role_grants ?c ''system.settings'' p"
    by (simp add: role_grants_def world_up_cache)
  ultimately have p4: "roles_examined ?c ''system.settings'' ?rs = [''r_gone''] @ [''r_admin'']"
    using inst granted by blast
  have p5: "accessLevel contractor = Some 1" by (simp add: contractor_def)
  have p6: "requiredLevel_spec ?c ''system.settings'' = Some 5"
    by (simp add: requiredLevel_spec_def world_up_cache builtin_settings)
  from p1 p2 p3 p4 p5 p6 show ?thesis by simp
qed

text \<open>
  C3.  The claim: for an actor with no explicit override and no granting role,
  \<^verbatim>\<open>canPerform\<close> allows exactly when the access level is at least the required level:
  the cached Permission's level when the cache has an entry of that name, else the
  built-in table's level, else 5; a feature in neither is denied at level 4 and allowed at
  level 5.  The lookup in the cache also finds what the cache object inherits.  Evaluated
  on the feature name \<^verbatim>\<open>constructor\<close>, which neither the cache nor the table holds,
  and an actor of level 5 without permissions and roles: the lookup finds an inherited
  function, no default is built, and the actor is denied.  Evaluated on the name
  \<^verbatim>\<open>toString\<close> and an actor of level 1 whose permission map is empty: the lookup in
  the map finds an inherited function, and the actor is allowed.  On the name
  \<^verbatim>\<open>payroll.run\<close>, which nothing inherits, level 4 is denied and level 5 allowed.
\<close>

theorem inherited_name_skips_default:
  "fst (canPerform world_up initial_cache ''constructor'' (Some admin_plain)) = False
   \<and> accessLevel admin_plain = Some 5
   \<and> user_permissions admin_plain = None
   \<and> user_roles admin_plain = None
   \<and> permissions (cache_in_effect world_up initial_cache) ''constructor'' = None
   \<and> requiredLevel_spec (cache_in_effect world_up initial_cache) ''constructor'' = Some 5
   \<and> fst (canPerform world_up initial_cache ''toString'' (Some (plain_actor 1))) = True
   \<and> accessLevel (plain_actor 1) = Some 1
   \<and> user_permissions (plain_actor 1) = Some Map.empty
   \<and> user_roles (plain_actor 1) = Some []
   \<and> requiredLevel_spec (cache_in_effect world_up initial_cache) ''toString'' = Some 5
   \<and> fst (canPerform world_up initial_cache ''payroll.run'' (Some (plain_actor 4))) = False
   \<and> fst (canPerform world_up initial_cache ''payroll.run'' (Some (plain_actor 5))) = True"
proof -
  let ?c = "cache_in_effect world_up initial_cache"
  have admin: "accessLevel admin_plain = Some 5" "user_permissions admin_plain = None"
    "user_roles admin_plain = None"
    by (simp_all add: admin_plain_def)
  have actor: "accessLevel (plain_actor n) = Some n"
    "user_permissions (plain_actor n) = Some Map.empty" "user_roles (plain_actor n) = Some []"
    for n
    by (simp_all add: plain_actor_def)
  have found: "cached_permission ?c ''constructor'' = ForeignValue True"
    by (simp add: cached_permission_def world_up_cache inherited_builtin_def
        object_prototype_members_def)
  have a1: "\<not> has_override admin_plain ''constructor''"
    by (simp add: has_override_def admin)
  have a2: "\<not> roles_check ?c ''constructor'' admin_plain"
    by (simp add: roles_check_def admin)
  have a3: "\<not> lacks_critical_data admin_plain"
    by (simp add: lacks_critical_data_def admin)
  have denied: "fst (canPerform world_up initial_cache ''constructor'' (Some admin_plain)) = False"
    using a1 a2 a3
    by (simp add: canPerform_Some canPerform_body_iff inherited_member_has_no_level [OF found])
  have absent: "permissions ?c ''constructor'' = None"
    by (simp add: world_up_cache)
  have unknown: "map_of defaultFeaturePermissions ''constructor'' = None"
    "map_of defaultFeaturePermissions ''toString'' = None"
    by (simp_all add: defaultFeaturePermissions_def)
  have r1: "requiredLevel_spec ?c ''constructor'' = Some 5"
    and r2: "requiredLevel_spec ?c ''toString'' = Some 5"
    and r3: "requiredLevel_spec ?c ''payroll.run'' = Some 5"
    by (simp_all add: requiredLevel_spec_def world_up_cache unknown builtin_unknown)
  have b1: "has_override (plain_actor 1) ''toString''"
    by (simp add: has_override_def actor object_prototype_members_def)
  have present: "\<not> lacks_critical_data (plain_actor n)" for n
    by (simp add: lacks_critical_data_def actor)
  have allowed: "fst (canPerform world_up initial_cache ''toString'' (Some (plain_actor 1))) = True"
    using b1 present by (simp add: canPerform_Some canPerform_body_iff)
  have plain: "''payroll.run'' \<notin> set object_prototype_members"
    by (simp add: object_prototype_members_def)
  have stored: "cached_permission ?c ''payroll.run'' \<noteq> ForeignValue True"
    using plain by (rule cached_permission_plain) (simp add: world_up_cache)
  have c1: "\<not> has_override (plain_actor n) ''payroll.run''" for n
    using plain by (rule plain_actor_premises(1))
  have c2: "\<not> roles_check ?c ''payroll.run'' (plain_actor n)" for n
    by (simp add: roles_check_def actor)
  have level: "fst (canPerform world_up initial_cache ''payroll.run'' (Some (plain_actor n))) =
      (5 \<le> n)" for n
    using c1 c2 present
    by (simp add: canPerform_Some canPerform_body_iff requiredLevel_permissionInfo [OF stored]
        r3 actor)
  from denied admin absent r1 allowed actor [of 1] r2 level [of 4] level [of 5]
  show ?thesis by simp
qed

text \<open>
  C6.  A failed refresh.  When either scan of the store fails, \<^verbatim>\<open>refreshPermissionsCache\<close>
  returns \<^verbatim>\<open>false\<close> and the cache (timestamp, permissions, roles) is the one it was;
  no error reaches the caller, whose result type has none.  A decision taken then, by
  \<^verbatim>\<open>canPerform\<close> or by the middleware, leaves the cache as it was and is the decision a
  call would take on that cache without refreshing; on the never-filled cache it is, for
  every feature name but those the empty cache object inherits, the decision by overrides
  and the built-in table alone.
\<close>

theorem refresh_failure_keeps_snapshot:
  assumes failure: "isl (scan_permissions (store w)) \<or> isl (scan_roles (store w))"
  shows "refreshPermissionsCache t (store w) cache = (False, cache)
         \<and> snd (canPerform w cache f usr) = cache
         \<and> snd (authorizeFeature f w cache req) = cache
         \<and> (\<forall>w'. \<not> cache_expired (now_check w') (timestamp cache) \<longrightarrow>
               canPerform w cache f usr = canPerform w' cache f usr
             \<and> authorizeFeature f w cache req = authorizeFeature f w' cache req)
         \<and> (\<forall>u. \<not> lacks_critical_data u \<and> f \<notin> set object_prototype_members \<longrightarrow>
               fst (canPerform w initial_cache f (Some u)) =
                 (has_override u f \<or>
                  js_ge (accessLevel u)
                    (Some (case map_of defaultFeaturePermissions f of
                             None \<Rightarrow> 5 | Some (lvl, d) \<Rightarrow> lvl))))"
proof -
  have kept: "refreshPermissionsCache t' (store w) c = (False, c)" for t' c
    using failure by (rule refresh_fails)
  then have eff: "cache_in_effect w c = c" for c
    by (simp add: cache_in_effect_def)
  have fresh: "cache_in_effect w' cache = cache"
    if "\<not> cache_expired (now_check w') (timestamp cache)" for w'
    using that by (simp add: cache_in_effect_def)
  have p2: "snd (canPerform w cache f usr) = cache"
    by (simp add: canPerform_def eff Let_def split: option.splits)
  have p3: "snd (authorizeFeature f w cache req) = cache"
    by (simp add: authorizeFeature_def eff Let_def split: option.splits)
  have p4: "canPerform w cache f usr = canPerform w' cache f usr
      \<and> authorizeFeature f w cache req = authorizeFeature f w' cache req"
    if "\<not> cache_expired (now_check w') (timestamp cache)" for w'
    by (simp add: canPerform_def authorizeFeature_def eff fresh [OF that] split: option.splits)
  have p5: "fst (canPerform w initial_cache f (Some u)) =
      (has_override u f \<or>
       js_ge (accessLevel u)
         (Some (case map_of defaultFeaturePermissions f of None \<Rightarrow> 5 | Some (lvl, d) \<Rightarrow> lvl)))"
    if "\<not> lacks_critical_data u" and "f \<notin> set object_prototype_members" for u
    using that by (simp add: canPerform_Some eff builtin_only)
  from kept p2 p3 p4 p5 show ?thesis by blast
qed

theorem refresh_failure_keeps_snapshot_witness:
  "cache_expired (now_check world_down) (timestamp stale_cache)
   \<and> refreshPermissionsCache (now_refresh world_down) (store world_down) stale_cache =
       (False, stale_cache)
   \<and> canPerform world_down stale_cache ''reports.custom'' (Some (plain_actor 2)) =
       (True, stale_cache)
   \<and> authorizeFeature ''reports.custom'' world_down stale_cache
        \<lparr> req_user = Some (plain_actor 2) \<rparr> = (Next, stale_cache)
   \<and> canPerform world_down initial_cache ''documents.delete'' (Some (plain_actor 4)) =
       (True, initial_cache)
   \<and> canPerform world_down initial_cache ''documents.delete'' (Some (plain_actor 1)) =
       (False, initial_cache)"
proof -
  have down: "isl (scan_permissions (store world_down)) \<or> isl (scan_roles (store world_down))"
    by (simp add: world_down_def store_down_def)
  note inst = refresh_failure_keeps_snapshot [OF down]
  have expired: "cache_expired (now_check world_down) (timestamp stale_cache)"
    by (simp add: world_down_def stale_cache_def ttl_def)
  have kept: "refreshPermissionsCache (now_refresh world_down) (store world_down) stale_cache =
       (False, stale_cache)"
    using inst by blast
  have body: "canPerform_body stale_cache ''reports.custom'' (plain_actor 2)"
    by (simp add: canPerform_body_iff permissionInfo_def cached_permission_def stale_cache_def
        plain_actor_def)
  have present: "\<not> lacks_critical_data (plain_actor n)" for n
    by (simp add: lacks_critical_data_def plain_actor_def)
  have eff: "cache_in_effect world_down c = c" for c
    using inst [of "now_refresh world_down" c "''x''" None "\<lparr> req_user = None \<rparr>"]
    by (simp add: cache_in_effect_def)
  have d1: "canPerform world_down stale_cache ''reports.custom'' (Some (plain_actor 2)) =
       (True, stale_cache)"
    by (simp add: canPerform_Some present eff body)
  have authd: "\<not> falsy_str (user_id (plain_actor 2))"
    by (simp add: plain_actor_def)
  have d2: "authorizeFeature ''reports.custom'' world_down stale_cache
        \<lparr> req_user = Some (plain_actor 2) \<rparr> = (Next, stale_cache)"
    by (simp add: authorizeFeature_authenticated [OF authd] eff body)
  have d3: "fst (canPerform world_down initial_cache ''documents.delete'' (Some (plain_actor n))) =
      (4 \<le> n)" for n
    using inst [of 0 stale_cache "''documents.delete''" None "\<lparr> req_user = None \<rparr>"] present [of n]
      plain_actor_premises(1) [of "''documents.delete''" n]
    by (simp add: builtin_documents plain_actor_def object_prototype_members_def)
  have d4: "snd (canPerform world_down initial_cache ''documents.delete'' (Some (plain_actor n))) =
      initial_cache" for n
    using inst [of 0 initial_cache "''documents.delete''" "Some (plain_actor n)" "\<lparr> req_user = None \<rparr>"]
    by blast
  have d5: "canPerform world_down initial_cache ''documents.delete'' (Some (plain_actor 4)) =
       (True, initial_cache)"
    using d3 [of 4] d4 [of 4] by (simp add: prod_eq_iff)
  have d6: "canPerform world_down initial_cache ''documents.delete'' (Some (plain_actor 1)) =
       (False, initial_cache)"
    using d3 [of 1] d4 [of 1] by (simp add: prod_eq_iff)
  from expired kept d1 d2 d5 d6 show ?thesis by simp
qed

text \<open>
  C10.  The claim: an override can grant, never revoke; for an actor whose permission map
  holds a falsy value for the feature, \<^verbatim>\<open>canPerform\<close> returns what it returns for the
  same actor with that entry removed.  Evaluated on the feature name \<^verbatim>\<open>toString\<close> and
  an actor of level 1 whose permission map is \<^verbatim>\<open>{toString: false}\<close>: the own entry is
  falsy and the actor is denied, by \<^verbatim>\<open>canPerform\<close> and by the middleware; with the
  entry removed the lookup finds the inherited function and the actor is allowed.
\<close>

theorem falsy_override_hides_inherited_grant:
  "fst (canPerform world_up initial_cache ''toString'' (Some shadowed)) = False
   \<and> fst (canPerform world_up initial_cache ''toString''
           (Some (shadowed \<lparr> user_permissions := Some Map.empty \<rparr>))) = True
   \<and> fst (authorizeFeature ''toString'' world_up initial_cache \<lparr> req_user = Some shadowed \<rparr>) =
       Respond 403 ''You do not have permission to access this feature''
   \<and> fst (authorizeFeature ''toString'' world_up initial_cache
           \<lparr> req_user = Some (shadowed \<lparr> user_permissions := Some Map.empty \<rparr>) \<rparr>) = Next
   \<and> user_permissions shadowed = Some [''toString'' \<mapsto> JBool False]
   \<and> [''toString'' \<mapsto> JBool False](''toString'' := None) = Map.empty
   \<and> accessLevel shadowed = Some 1"
proof -
  let ?c = "cache_in_effect world_up initial_cache"
  let ?bare = "shadowed \<lparr> user_permissions := Some Map.empty \<rparr>"
  have fields: "user_permissions shadowed = Some [''toString'' \<mapsto> JBool False]"
    "accessLevel shadowed = Some 1" "user_roles shadowed = None"
    "\<not> falsy_str (user_id shadowed)"
    by (simp_all add: shadowed_def)
  have found: "cached_permission ?c ''toString'' = ForeignValue True"
    by (simp add: cached_permission_def world_up_cache inherited_builtin_def
        object_prototype_members_def)
  have own: "\<not> has_override shadowed ''toString''"
    by (simp add: has_override_def fields)
  have inherited: "has_override ?bare ''toString''"
    by (simp add: has_override_def object_prototype_members_def)
  have no_roles: "\<not> roles_check ?c ''toString'' shadowed"
    by (simp add: roles_check_def fields)
  have present: "\<not> lacks_critical_data shadowed" "\<not> lacks_critical_data ?bare"
    by (simp_all add: lacks_critical_data_def fields)
  have body1: "\<not> canPerform_body ?c ''toString'' shadowed"
    using own no_roles
    by (simp add: canPerform_body_iff inherited_member_has_no_level [OF found])
  have body2: "canPerform_body ?c ''toString'' ?bare"
    using inherited by (simp add: canPerform_body_iff)
  have p1: "fst (canPerform world_up initial_cache ''toString'' (Some shadowed)) = False"
    using present body1 by (simp add: canPerform_Some)
  have p2: "fst (canPerform world_up initial_cache ''toString'' (Some ?bare)) = True"
    using present body2 by (simp add: canPerform_Some)
  have p3: "fst (authorizeFeature ''toString'' world_up initial_cache
      \<lparr> req_user = Some shadowed \<rparr>) = Respond 403 ''You do not have permission to access this feature''"
    using body1 by (simp add: authorizeFeature_authenticated fields)
  have p4: "fst (authorizeFeature ''toString'' world_up initial_cache
      \<lparr> req_user = Some ?bare \<rparr>) = Next"
    using body2 by (simp add: authorizeFeature_authenticated fields)
  from p1 p2 p3 p4 fields show ?thesis by simp
qed

section \<open>The leave and request workflows\<close>

text \<open>
  C7.  The claim: an approval or rejection of a request that is not pending leaves the
  request unchanged and is answered with a conflict error, on the leave approval endpoint
  and on \<^verbatim>\<open>PUT /requests/:id\<close> alike, so that a request is decided once.  The handler
  of \<^verbatim>\<open>PUT /requests/:id\<close> never reads the stored status.  Evaluated on an approved
  request \<open>R2\<close> and a rejection sent by a level-4 actor: with the authority module as it
  is exported (an object, whose application throws) the answer is 500, for the approved
  request and for the pending request \<open>R1\<close> alike, and the table is unchanged; with an
  authority check that can be called and allows, the answer is 200 and the approved
  request is now rejected.  On the leave endpoint the approved request \<open>L2\<close> is left as
  it is and the answer is 403 with a message of its own.
\<close>

theorem requests_update_ignores_status:
  "put_request checkApprovalAuthority_exports example_runtime requests0 manager_m1 ''R2'' reject =
     (Response 500 ''Internal server error'', requests0)
   \<and> put_request checkApprovalAuthority_exports example_runtime requests0 manager_m1 ''R1'' approve =
     (Response 500 ''Internal server error'', requests0)
   \<and> fst (put_request allow_all example_runtime requests0 manager_m1 ''R2'' reject) =
     Response 200 ''Request updated successfully''
   \<and> status_of requests0 ''REQUEST#R2'' = [Some (AStr ''approved'')]
   \<and> status_of (snd (put_request allow_all example_runtime requests0 manager_m1 ''R2'' reject))
        ''REQUEST#R2'' = [Some (AStr ''rejected'')]
   \<and> put_leave_approve example_runtime leave_db0 manager_m1 ''L2'' approve =
     (Response 403 ''Leave request is not pending. Cannot approve or reject'', leave_db0)"
proof -
  have q1: "query_PK requests0 ''REQUEST#R1'' = [request_R1]"
    and q2: "query_PK requests0 ''REQUEST#R2'' = [request_R2]"
    by (simp_all add: query_PK_def requests0_def request_R1_def request_R2_def)
  have c1: "put_request checkApprovalAuthority_exports example_runtime requests0 manager_m1
      ''R2'' reject = (Response 500 ''Internal server error'', requests0)"
    by (simp add: put_request_def reject_def q2 checkApprovalAuthority_exports_def)
  have c2: "put_request checkApprovalAuthority_exports example_runtime requests0 manager_m1
      ''R1'' approve = (Response 500 ''Internal server error'', requests0)"
    by (simp add: put_request_def approve_def q1 checkApprovalAuthority_exports_def)
  have c3: "fst (put_request allow_all example_runtime requests0 manager_m1 ''R2'' reject) =
      Response 200 ''Request updated successfully''"
    by (simp add: put_request_def reject_def q2 allow_all_def manager_m1_def Let_def
        request_R2_def)
  have c4: "status_of requests0 ''REQUEST#R2'' = [Some (AStr ''approved'')]"
    by (simp add: status_of_def q2) (simp add: request_R2_def)
  have c5: "status_of (snd (put_request allow_all example_runtime requests0 manager_m1 ''R2''
      reject)) ''REQUEST#R2'' = [Some (AStr ''rejected'')]"
    by (simp add: put_request_def reject_def q2 allow_all_def manager_m1_def Let_def
        status_of_def query_PK_def requests0_def request_R1_def request_R2_def)
  have c6: "put_leave_approve example_runtime leave_db0 manager_m1 ''L2'' approve =
      (Response 403 ''Leave request is not pending. Cannot approve or reject'', leave_db0)"
    by (simp add: put_leave_approve_def approve_def leave_db0_def leave_L1_def manager_m1_def)
  from c1 c2 c3 c4 c5 c6 show ?thesis by simp
qed

text \<open>
  C8.  The claim: when a pending leave request becomes approved on the leave approval
  endpoint, the employee's balance of the requested leave type goes down by the
  request's \<^verbatim>\<open>leaveDays\<close>.  Evaluated on the pending request \<open>L1\<close> (annual leave, 2
  days, balance 20) approved by its manager: the status update is written, the argument
  \<^verbatim>\<open>employeeId\<close> of the balance update has no binding, the handler answers 500, and
  the balance is still 20.  Called with the employee's id, \<^verbatim>\<open>updateLeaveBalance\<close>
  would leave 18.
\<close>

theorem approve_leaves_balance:
  "fst (put_leave_approve example_runtime leave_db0 manager_m1 ''L1'' approve) =
     Response 500 ''Internal server error''
   \<and> attr_of (LeaveRequests (snd (put_leave_approve example_runtime leave_db0 manager_m1 ''L1''
                 approve))) ''L1'' ''status'' = Some (AStr ''approved'')
   \<and> attr_of (LeaveBalances (snd (put_leave_approve example_runtime leave_db0 manager_m1 ''L1''
                 approve))) ''e1'' ''annual'' = Some (ANum 20)
   \<and> attr_of (LeaveBalances leave_db0) ''e1'' ''annual'' = Some (ANum 20)
   \<and> attr_of (LeaveRequests leave_db0) ''L1'' ''leaveDays'' = Some (ANum 2)
   \<and> map_sum id (\<lambda>db. attr_of (LeaveBalances db) ''e1'' ''annual'')
        (updateLeaveBalance leave_db0 ''e1'' (Some (AStr ''annual'')) (Some (ANum 2))) =
       Inr (Some (ANum 18))"
  by (simp add: put_leave_approve_def approve_def leave_db0_def leave_L1_def manager_m1_def
      employeeId_unbound attr_of_def defaultBalance_def updateLeaveBalance_def Let_def)

text \<open>
  C9, as the specification states it, fails on \<^verbatim>\<open>POST /leave/request\<close> of
  \<^verbatim>\<open>routes/leave.js\<close>: the item stored for an employee whose manager is \<open>m1\<close>
  carries \<^verbatim>\<open>managerId\<close> and no list of approvers under either spelling.
\<close>

theorem leave_request_carries_no_chain:
  "fst (post_leave_request example_runtime leave_db0 employee_e1 leave_body0) =
     Response 201 ''Leave request submitted successfully''
   \<and> attr_of (LeaveRequests (snd (post_leave_request example_runtime leave_db0 employee_e1
                 leave_body0))) ''leave_1700000000000_e1'' ''managerId'' = Some (AStr ''m1'')
   \<and> attr_of (LeaveRequests (snd (post_leave_request example_runtime leave_db0 employee_e1
                 leave_body0))) ''leave_1700000000000_e1'' ''status'' = Some (AStr ''pending'')
   \<and> attr_of (LeaveRequests (snd (post_leave_request example_runtime leave_db0 employee_e1
                 leave_body0))) ''leave_1700000000000_e1'' ''approverUserIds'' = None
   \<and> attr_of (LeaveRequests (snd (post_leave_request example_runtime leave_db0 employee_e1
                 leave_body0))) ''leave_1700000000000_e1'' ''approver_user_ids'' = None"
proof -
  have stored: "LeaveRequests (snd (post_leave_request example_runtime leave_db0 employee_e1
      leave_body0)) ''leave_1700000000000_e1'' =
    Some (new_leaveRequest example_runtime employee_e1 ''e1'' 1894233600000 1894406400000
            ''annual'' ''family'' 2)"
    by (simp add: post_leave_request_def leave_body0_def example_dates getDateDiffInDays_def
        getLeaveBalance_def leave_db0_def employee_e1_def defaultBalance_def Let_def
        decimal_clock)
  have mgr: "managerId employee_e1 = Some ''m1''" by (simp add: employee_e1_def)
  show ?thesis
    using example_created
    by (simp add: attr_of_def stored new_leaveRequest_manager mgr)
       (simp add: new_leaveRequest_def)
qed

text \<open>
  C9, amended.  A leave request created by \<^verbatim>\<open>POST /leave/request\<close> of
  \<^verbatim>\<open>routes/leave.js\<close> carries one approver reference, \<^verbatim>\<open>managerId\<close>: the
  submitting actor's \<^verbatim>\<open>managerId\<close> when truthy, else \<^verbatim>\<open>null\<close>; it carries no
  approval chain.  The chain is recorded by the handler of the leave routes over the
  users table, as \<^verbatim>\<open>approver_user_ids\<close>: empty when the submitter has no manager,
  \<open>[manager]\<close> when the manager has no manager of their own (or no item in the users
  table), and \<open>[manager, manager's manager]\<close> when the manager's manager exists.
\<close>

theorem leave_request_approvers:
  "(fst (post_leave_request rt db u body) = Response 201 msg \<longrightarrow>
      (\<exists>employeeId. user_id u = Some employeeId
         \<and> attr_of (LeaveRequests (snd (post_leave_request rt db u body)))
              (''leave_'' @ decimal (clock rt) @ ''_'' @ employeeId) ''managerId'' =
             Some (if falsy_str (managerId u) then ANull else AStr (the (managerId u)))
         \<and> attr_of (LeaveRequests (snd (post_leave_request rt db u body)))
              (''leave_'' @ decimal (clock rt) @ ''_'' @ employeeId) ''approverUserIds'' = None
         \<and> attr_of (LeaveRequests (snd (post_leave_request rt db u body)))
              (''leave_'' @ decimal (clock rt) @ ''_'' @ employeeId) ''approver_user_ids'' = None))
   \<and> (fst (post_leave_request_users rt hdb u body) = Response 201 msg \<longrightarrow>
      (\<exists>userId usr chain. user_id u = Some userId \<and> USERS_TABLE hdb userId = Some usr
         \<and> attr_of (LEAVE_TABLE (snd (post_leave_request_users rt hdb u body)))
              (''leave_'' @ uuidv4 rt 0) ''approver_user_ids'' = Some (AList chain)
         \<and> (\<not> attr_truthy (usr ''manager_id'') \<longrightarrow> chain = [])
         \<and> (\<forall>m. usr ''manager_id'' = Some (AStr m) \<and> m \<noteq> [] \<longrightarrow>
               (managers_manager (USERS_TABLE hdb) m = None \<longrightarrow> chain = [AStr m])
             \<and> (\<forall>mm. managers_manager (USERS_TABLE hdb) m = Some mm \<longrightarrow>
                    chain = [AStr m, mm]))))"
proof (intro conjI impI)
  assume "fst (post_leave_request rt db u body) = Response 201 msg"
  then show "\<exists>employeeId. user_id u = Some employeeId
         \<and> attr_of (LeaveRequests (snd (post_leave_request rt db u body)))
              (''leave_'' @ decimal (clock rt) @ ''_'' @ employeeId) ''managerId'' =
             Some (if falsy_str (managerId u) then ANull else AStr (the (managerId u)))
         \<and> attr_of (LeaveRequests (snd (post_leave_request rt db u body)))
              (''leave_'' @ decimal (clock rt) @ ''_'' @ employeeId) ''approverUserIds'' = None
         \<and> attr_of (LeaveRequests (snd (post_leave_request rt db u body)))
              (''leave_'' @ decimal (clock rt) @ ''_'' @ employeeId) ''approver_user_ids'' = None"
    by (rule post_leave_request_created)
next
  assume "fst (post_leave_request_users rt hdb u body) = Response 201 msg"
  then obtain userId usr chain where
    c: "user_id u = Some userId" "USERS_TABLE hdb userId = Some usr"
       "approval_chain (USERS_TABLE hdb) usr = Inr chain"
       "attr_of (LEAVE_TABLE (snd (post_leave_request_users rt hdb u body)))
          (''leave_'' @ uuidv4 rt 0) ''approver_user_ids'' = Some (AList chain)"
    using post_leave_request_users_created by blast
  from approval_chain_cases [OF c(3)] c(1,2,4)
  show "\<exists>userId usr chain. user_id u = Some userId \<and> USERS_TABLE hdb userId = Some usr
         \<and> attr_of (LEAVE_TABLE (snd (post_leave_request_users rt hdb u body)))
              (''leave_'' @ uuidv4 rt 0) ''approver_user_ids'' = Some (AList chain)
         \<and> (\<not> attr_truthy (usr ''manager_id'') \<longrightarrow> chain = [])
         \<and> (\<forall>m. usr ''manager_id'' = Some (AStr m) \<and> m \<noteq> [] \<longrightarrow>
               (managers_manager (USERS_TABLE hdb) m = None \<longrightarrow> chain = [AStr m])
             \<and> (\<forall>mm. managers_manager (USERS_TABLE hdb) m = Some mm \<longrightarrow>
                    chain = [AStr m, mm]))"
    by blast
qed

theorem leave_request_approvers_witness:
  "fst (post_leave_request example_runtime leave_db0 employee_e1 leave_body0) =
     Response 201 ''Leave request submitted successfully''
   \<and> attr_of (LeaveRequests (snd (post_leave_request example_runtime leave_db0 employee_e1
                 leave_body0))) ''leave_1700000000000_e1'' ''managerId'' = Some (AStr ''m1'')
   \<and> fst (post_leave_request_users example_runtime hris_db0 employee_e1 leave_body0) =
     Response 201 ''Leave request submitted successfully''
   \<and> attr_of (LEAVE_TABLE (snd (post_leave_request_users example_runtime hris_db0 employee_e1
                 leave_body0))) ''leave_uuid-0'' ''approver_user_ids'' =
       Some (AList [AStr ''m1'', AStr ''m0''])
   \<and> attr_of (LEAVE_TABLE (snd (post_leave_request_users example_runtime hris_db0 employee_e2
                 leave_body0))) ''leave_uuid-0'' ''approver_user_ids'' =
       Some (AList [AStr ''m0''])"
proof -
  note inst = leave_request_approvers
    [of example_runtime leave_db0 u leave_body0 "''Leave request submitted successfully''"
        hris_db0 for u]
  have p1: "attr_of (LeaveRequests (snd (post_leave_request example_runtime leave_db0 employee_e1
      leave_body0))) ''leave_1700000000000_e1'' ''managerId'' = Some (AStr ''m1'')"
    using inst [of employee_e1] example_created
    by (simp add: example_dates decimal_clock employee_e1_def)
  have um: "USERS_TABLE hris_db0 = users0" by (simp add: hris_db0_def)
  have mm1: "managers_manager users0 ''m1'' = Some (AStr ''m0'')"
    and mm0: "managers_manager users0 ''m0'' = None"
    by (simp_all add: managers_manager_def users0_def)
  from inst [of employee_e1] example_users_created(1)
  obtain usr chain where
    c1: "users0 ''e1'' = Some usr"
        "attr_of (LEAVE_TABLE (snd (post_leave_request_users example_runtime hris_db0 employee_e1
           leave_body0))) ''leave_uuid-0'' ''approver_user_ids'' = Some (AList chain)"
        "\<forall>m. usr ''manager_id'' = Some (AStr m) \<and> m \<noteq> [] \<longrightarrow>
           (\<forall>mm. managers_manager users0 m = Some mm \<longrightarrow> chain = [AStr m, mm])"
    by (auto simp: um example_dates employee_e1_def)
  from c1(1) have "usr ''manager_id'' = Some (AStr ''m1'')"
    by (auto simp: users0_def)
  with c1(3) mm1 have "chain = [AStr ''m1'', AStr ''m0'']" by auto
  with c1(2) have p2: "attr_of (LEAVE_TABLE (snd (post_leave_request_users example_runtime
      hris_db0 employee_e1 leave_body0))) ''leave_uuid-0'' ''approver_user_ids'' =
      Some (AList [AStr ''m1'', AStr ''m0''])"
    by simp
  from inst [of employee_e2] example_users_created(2)
  obtain usr chain where
    c2: "users0 ''e2'' = Some usr"
        "attr_of (LEAVE_TABLE (snd (post_leave_request_users example_runtime hris_db0 employee_e2
           leave_body0))) ''leave_uuid-0'' ''approver_user_ids'' = Some (AList chain)"
        "\<forall>m. usr ''manager_id'' = Some (AStr m) \<and> m \<noteq> [] \<longrightarrow>
           (managers_manager users0 m = None \<longrightarrow> chain = [AStr m])"
    by (auto simp: um example_dates employee_e1_def employee_e2_def)
  from c2(1) have "usr ''manager_id'' = Some (AStr ''m0'')"
    by (auto simp: users0_def)
  with c2(3) mm0 have "chain = [AStr ''m0'']" by auto
  with c2(2) have p3: "attr_of (LEAVE_TABLE (snd (post_leave_request_users example_runtime
      hris_db0 employee_e2 leave_body0))) ''leave_uuid-0'' ''approver_user_ids'' =
      Some (AList [AStr ''m0''])"
    by simp
  from example_created p1 example_users_created(1) p2 p3 show ?thesis by simp
qed

end
